theory Spec2Isabelle
  imports Main
begin

section \<open>The SAP AI Core provider adapter\<close>

text \<open>
  A shallow embedding of \<^verbatim>\<open>src/api/providers/sapaicore.ts\<close>: the class
  \<^verbatim>\<open>SapAiCoreHandler\<close> with its token cache, its deployment lookup, the dispatch of
  \<^verbatim>\<open>createMessage\<close> and the two parsers of the streamed response.

  The handler talks to three HTTP endpoints and reads the wall clock. Each of these is an
  oracle of the record \<open>world\<close>, indexed by the number of interactions the run has had
  with the outside so far (the field \<open>tick\<close> of the state), so that every sequence of
  replies is a world; a reply \<open>Inl msg\<close> is a request that fails (the transport, or a
  status that is not 2xx), which the HTTP client throws as \<open>RequestFailed msg\<close>.
  Every HTTP request is appended to the trace \<open>calls\<close>.
  An exception is a value \<open>Inl e\<close> of the result.
  The world also holds the two built-ins of the runtime that are not written out:
  \<^verbatim>\<open>JSON.parse\<close>, and \<^verbatim>\<open>toLowerCase\<close> on strings beyond Latin-1.
\<close>

subsection \<open>JavaScript strings\<close>

text \<open>
  A string is the list of its UTF-16 code units, which is what \<^verbatim>\<open>split\<close>,
  \<^verbatim>\<open>startsWith\<close>, \<^verbatim>\<open>slice\<close> and \<^verbatim>\<open>===\<close> work on. \<open>js\<close> gives the string of
  an ASCII literal.
\<close>

type_synonym jsstring = "nat list"

definition js :: "string \<Rightarrow> jsstring" where
  "js s = map of_char s"

text \<open>
  \<^verbatim>\<open>toLowerCase\<close>. On a string whose code units are all below 256 (Basic Latin and
  Latin-1) the Unicode lower-case mapping works unit by unit: \<^verbatim>\<open>A\<close> to \<^verbatim>\<open>Z\<close> and
  U+00C0 to U+00DE, other than the multiplication sign U+00D7, move up by 32, and no other
  unit changes. On any other string it is the mapping of the runtime, an oracle of the
  world (\<open>wide\<close> here).
\<close>

definition toLowerCase_unit :: "nat \<Rightarrow> nat" where
  "toLowerCase_unit c =
     (if 65 \<le> c \<and> c \<le> 90 then c + 32
      else if 192 \<le> c \<and> c \<le> 222 \<and> c \<noteq> 215 then c + 32
      else c)"

definition toLowerCase :: "(jsstring \<Rightarrow> jsstring) \<Rightarrow> jsstring \<Rightarrow> jsstring" where
  "toLowerCase wide s =
     (if list_all (\<lambda>c. c < 256) s then map toLowerCase_unit s else wide s)"

text \<open>\<^verbatim>\<open>s.split(sep)\<close> for a separator of one character: never the empty array.\<close>

fun split :: "nat \<Rightarrow> jsstring \<Rightarrow> jsstring list" where
  "split sep [] = [[]]"
| "split sep (c # cs) =
     (if c = sep then [] # split sep cs
      else (case split sep cs of
              [] \<Rightarrow> [[c]]
            | w # ws \<Rightarrow> (c # w) # ws))"

definition startsWith :: "jsstring \<Rightarrow> jsstring \<Rightarrow> bool" where
  "startsWith s p = (take (length p) s = p)"

definition slice :: "jsstring \<Rightarrow> nat \<Rightarrow> jsstring" where
  "slice s n = drop n s"

text \<open>
  \<^verbatim>\<open>trim\<close> strips the white space and the line terminators of ECMAScript: TAB, LF, VT,
  FF, CR, the space, the no-break space, the other space separators (U+1680, U+2000 to
  U+200A, U+202F, U+205F, U+3000), the line and paragraph separators (U+2028, U+2029) and
  the byte order mark U+FEFF.
\<close>

definition is_space :: "nat \<Rightarrow> bool" where
  "is_space c =
     (c \<in> set [9, 10, 11, 12, 13, 32, 160, 5760, 8192, 8193, 8194, 8195, 8196, 8197, 8198,
               8199, 8200, 8201, 8202, 8232, 8233, 8239, 8287, 12288, 65279])"

definition trim :: "jsstring \<Rightarrow> jsstring" where
  "trim s = rev (dropWhile is_space (rev (dropWhile is_space s)))"

text \<open>\<^verbatim>\<open>x || d\<close> on an optional string: the empty string is falsy.\<close>

definition or_else :: "jsstring option \<Rightarrow> jsstring \<Rightarrow> jsstring" where
  "or_else x d = (case x of None \<Rightarrow> d | Some v \<Rightarrow> if v = [] then d else v)"

text \<open>An optional string inside a template literal: \<^verbatim>\<open>undefined\<close> prints as such.\<close>

definition template :: "jsstring option \<Rightarrow> jsstring" where
  "template x = (case x of None \<Rightarrow> (js ''undefined'') | Some v \<Rightarrow> v)"

subsection \<open>Data\<close>

record Deployment =
  id_d :: jsstring
  name_d :: jsstring

text \<open>
  The body of the token endpoint's reply, and the cached \<^verbatim>\<open>Token\<close>, which is that body
  with the field \<^verbatim>\<open>exipres_at\<close> (the source's spelling) assigned. Instants are
  milliseconds, as \<^verbatim>\<open>Date.now()\<close> counts them.
\<close>

record TokenResponse =
  access_token :: jsstring
  expires_in :: int
  scope :: jsstring
  jti :: jsstring
  token_type :: jsstring

record Token = TokenResponse +
  exipres_at :: int

record ApiHandlerOptions =
  apiModelId :: "jsstring option"
  sapAiCoreClientId :: "jsstring option"
  sapAiCoreClientSecret :: "jsstring option"
  sapAiCoreTokenUrl :: "jsstring option"
  sapAiCoreBaseUrl :: "jsstring option"
  sapAiResourceGroup :: "jsstring option"

datatype error =
    RequestFailed jsstring
  | FailedToFetchDeployments
  | NoRunningDeployment jsstring
  | UnsupportedModel jsstring
  | FailedToCreateMessage
  | TypeError
  | SyntaxError

text \<open>An entry of \<^verbatim>\<open>response.data.resources\<close> of the deployment listing.\<close>

record BackendModel =
  name_m :: "jsstring option"
  version_m :: "jsstring option"

record BackendDetails =
  model_b :: "BackendModel option"

record DetailsResources =
  backend_details :: "BackendDetails option"

record Details =
  resources_d :: "DetailsResources option"

record Resource =
  id_r :: jsstring
  targetStatus :: jsstring
  details :: "Details option"

text \<open>The HTTP requests the handler issues, as they appear in the trace.\<close>

datatype call =
    PostToken jsstring jsstring jsstring
  | GetDeployments jsstring jsstring jsstring
  | PostInference jsstring jsstring jsstring

fun is_auth :: "call \<Rightarrow> bool" where
  "is_auth (PostToken url cid secret) = True"
| "is_auth c = False"

fun is_listing :: "call \<Rightarrow> bool" where
  "is_listing (GetDeployments url bearer rg) = True"
| "is_listing c = False"

fun is_inference :: "call \<Rightarrow> bool" where
  "is_inference (PostInference url bearer rg) = True"
| "is_inference c = False"

text \<open>
  The body of a streamed response: the chunks the transport delivers, and the message of
  the error it ends with when it breaks.
\<close>

record Upstream =
  chunks :: "jsstring list"
  broken :: "jsstring option"

text \<open>
  What \<^verbatim>\<open>JSON.parse\<close> returns for a frame. The parsers read the value through the field
  accesses below, so the value is a record of these fields, each one optional (\<open>None\<close>
  when the field is absent or \<^verbatim>\<open>null\<close>) and of the type the access expects; token
  counts are integers. An element of \<^verbatim>\<open>choices\<close> is \<open>None\<close> when it is \<^verbatim>\<open>null\<close>.
  A value that is not an object has none of the fields.
  \<^verbatim>\<open>JSON.parse\<close> itself belongs to the runtime: it is the oracle \<open>JSON_parse\<close> of the
  world, with \<open>Invalid\<close> where it throws and \<open>JsonNull\<close> where it returns \<^verbatim>\<open>null\<close>.
\<close>

record UsageObj =
  input_tokens :: "int option"
  output_tokens :: "int option"
  prompt_tokens :: "int option"
  completion_tokens :: "int option"

record ContentBlock =
  type_c :: "jsstring option"
  text_c :: "jsstring option"

record Message =
  usage_m :: "UsageObj option"

record ChoiceDelta =
  content :: "jsstring option"

record Choice =
  delta_c :: "ChoiceDelta option"
  finish_reason :: "jsstring option"

record Data =
  type_j :: "jsstring option"
  message :: "Message option"
  content_block :: "ContentBlock option"
  delta :: "ContentBlock option"
  usage :: "UsageObj option"
  choices :: "Choice option list option"

datatype parsed = Invalid | JsonNull | JsonValue Data

text \<open>The events of the \<^verbatim>\<open>ApiStream\<close>; a count is \<open>None\<close> when it is \<^verbatim>\<open>undefined\<close>.\<close>

datatype event = Text jsstring | Usage "int option" "int option"

fun is_text :: "event \<Rightarrow> bool" where
  "is_text (Text t) = True"
| "is_text e = False"

fun is_usage :: "event \<Rightarrow> bool" where
  "is_usage (Usage i out) = True"
| "is_usage e = False"

record world =
  clock :: "nat \<Rightarrow> int"
  auth_reply :: "nat \<Rightarrow> jsstring + TokenResponse"
  list_reply :: "nat \<Rightarrow> jsstring + Resource list"
  infer_reply :: "nat \<Rightarrow> jsstring + Upstream"
  JSON_parse :: "jsstring \<Rightarrow> parsed"
  toLowerCase_wide :: "jsstring \<Rightarrow> jsstring"

text \<open>
  The instance: the three fields of the class, then the bookkeeping of the run.
\<close>

record SapAiCoreHandler =
  options :: ApiHandlerOptions
  token :: "Token option"
  deployments :: "Deployment list option"
  tick :: nat
  calls :: "call list"

definition new_handler :: "ApiHandlerOptions \<Rightarrow> SapAiCoreHandler" where
  "new_handler opts =
     \<lparr>options = opts, token = None, deployments = None, tick = 0, calls = []\<rparr>"

subsection \<open>The credential manager\<close>

definition date_now :: "world \<Rightarrow> SapAiCoreHandler \<Rightarrow> int \<times> SapAiCoreHandler" where
  "date_now w s = (clock w (tick s), s\<lparr>tick := Suc (tick s)\<rparr>)"

definition request :: "call \<Rightarrow> SapAiCoreHandler \<Rightarrow> SapAiCoreHandler" where
  "request c s = s\<lparr>tick := Suc (tick s), calls := calls s @ [c]\<rparr>"

definition authenticate :: "world \<Rightarrow> SapAiCoreHandler \<Rightarrow> (error + Token) \<times> SapAiCoreHandler" where
  "authenticate w s =
     (let c = PostToken (or_else (sapAiCoreTokenUrl (options s)) [])
                        (or_else (sapAiCoreClientId (options s)) [])
                        (or_else (sapAiCoreClientSecret (options s)) []);
          s1 = request c s
      in case auth_reply w (tick s) of
           Inl msg \<Rightarrow> (Inl (RequestFailed msg), s1)
         | Inr r \<Rightarrow>
             (let (now, s2) = date_now w s1
              in (Inr \<lparr>access_token = access_token r, expires_in = expires_in r,
                       scope = scope r, jti = jti r, token_type = token_type r,
                       exipres_at = now + expires_in r * 1000\<rparr>, s2)))"

definition getToken :: "world \<Rightarrow> SapAiCoreHandler \<Rightarrow> (error + jsstring) \<times> SapAiCoreHandler" where
  "getToken w s =
     (case token s of
        None \<Rightarrow>
          (case authenticate w s of
             (Inl e, s1) \<Rightarrow> (Inl e, s1)
           | (Inr t, s1) \<Rightarrow> (Inr (access_token t), s1\<lparr>token := Some t\<rparr>))
      | Some t0 \<Rightarrow>
          (let (now, s0) = date_now w s
           in if exipres_at t0 < now
              then (case authenticate w s0 of
                      (Inl e, s1) \<Rightarrow> (Inl e, s1)
                    | (Inr t, s1) \<Rightarrow> (Inr (access_token t), s1\<lparr>token := Some t\<rparr>))
              else (Inr (access_token t0), s0)))"

subsection \<open>The deployment resolver\<close>

definition sentinel :: Deployment where
  "sentinel = \<lparr>id_d = (js ''notconfigured''), name_d = (js ''ai-core-not-configured'')\<rparr>"

text \<open>
  \<^verbatim>\<open>deployment.details?.resources?.backend_details?.model\<close>: each \<^verbatim>\<open>?.\<close> gives
  \<^verbatim>\<open>undefined\<close> for what is missing on its left.
\<close>

definition backend_model :: "Resource \<Rightarrow> BackendModel option" where
  "backend_model r =
     (case details r of
        None \<Rightarrow> None
      | Some d \<Rightarrow>
          (case resources_d d of
             None \<Rightarrow> None
           | Some rs \<Rightarrow>
               (case backend_details rs of
                  None \<Rightarrow> None
                | Some b \<Rightarrow> model_b b)))"

text \<open>A string is truthy when it is there and not empty.\<close>

definition truthy :: "jsstring option \<Rightarrow> bool" where
  "truthy x = (case x of None \<Rightarrow> False | Some v \<Rightarrow> v \<noteq> [])"

text \<open>The callback of \<^verbatim>\<open>map\<close>: \<open>None\<close> is the row it returns \<^verbatim>\<open>null\<close> for.\<close>

definition to_deployment :: "Resource \<Rightarrow> Deployment option" where
  "to_deployment r =
     (case backend_model r of
        None \<Rightarrow> None
      | Some m \<Rightarrow>
          if \<not> truthy (name_m m) \<or> \<not> truthy (version_m m) then None
          else Some \<lparr>id_d = id_r r,
                     name_d = template (name_m m) @ (js '':'') @ template (version_m m)\<rparr>)"

definition running_deployments :: "Resource list \<Rightarrow> Deployment list" where
  "running_deployments rs =
     map the (filter (\<lambda>d. d \<noteq> None)
       (map to_deployment (filter (\<lambda>r. targetStatus r = (js ''RUNNING'')) rs)))"

definition getAiCoreDeployments ::
  "world \<Rightarrow> SapAiCoreHandler \<Rightarrow> (error + Deployment list) \<times> SapAiCoreHandler" where
  "getAiCoreDeployments w s =
     (if sapAiCoreClientSecret (options s) = Some []
      then (Inr [sentinel], s)
      else
        (case getToken w s of
           (Inl e, s1) \<Rightarrow> (Inl e, s1)
         | (Inr bearer, s1) \<Rightarrow>
             (let url = template (sapAiCoreBaseUrl (options s1))
                          @ (js ''/lm/deployments?$top=10000&$skip=0'');
                  s2 = request (GetDeployments url bearer
                                  (or_else (sapAiResourceGroup (options s1)) (js ''default''))) s1
              in case list_reply w (tick s1) of
                   Inl msg \<Rightarrow> (Inl FailedToFetchDeployments, s2)
                 | Inr rs \<Rightarrow> (Inr (running_deployments rs), s2))))"

text \<open>
  The two operands the source compares, under the names it gives them:
  \<^verbatim>\<open>d.name.split(":")[0].toLowerCase()\<close> and \<^verbatim>\<open>modelId.split(":")[0].toLowerCase()\<close>.
  \<^verbatim>\<open>split\<close> never returns the empty array, so the element 0 is there.
\<close>

definition deploymentBaseName :: "world \<Rightarrow> Deployment \<Rightarrow> jsstring" where
  "deploymentBaseName w d = toLowerCase (toLowerCase_wide w) (hd (split 58 (name_d d)))"

definition modelBaseName :: "world \<Rightarrow> jsstring \<Rightarrow> jsstring" where
  "modelBaseName w modelId = toLowerCase (toLowerCase_wide w) (hd (split 58 modelId))"

definition hasDeploymentForModel :: "world \<Rightarrow> SapAiCoreHandler \<Rightarrow> jsstring \<Rightarrow> bool" where
  "hasDeploymentForModel w s modelId =
     (case deployments s of
        None \<Rightarrow> False
      | Some ds \<Rightarrow> list_ex (\<lambda>d. deploymentBaseName w d = modelBaseName w modelId) ds)"

text \<open>What follows the refresh: \<^verbatim>\<open>find\<close>, then the error or the identifier.\<close>

definition find_deployment :: "world \<Rightarrow> Deployment list \<Rightarrow> jsstring \<Rightarrow> error + jsstring" where
  "find_deployment w ds modelId =
     (case find (\<lambda>d. deploymentBaseName w d = modelBaseName w modelId) ds of
        None \<Rightarrow> Inl (NoRunningDeployment modelId)
      | Some d \<Rightarrow> Inr (id_d d))"

definition getDeploymentForModel ::
  "world \<Rightarrow> SapAiCoreHandler \<Rightarrow> jsstring \<Rightarrow> (error + jsstring) \<times> SapAiCoreHandler" where
  "getDeploymentForModel w s modelId =
     (case (if deployments s = None \<or> \<not> hasDeploymentForModel w s modelId
            then (case getAiCoreDeployments w s of
                    (Inl e, s1) \<Rightarrow> (Some e, s1)
                  | (Inr ds, s1) \<Rightarrow> (None, s1\<lparr>deployments := Some ds\<rparr>))
            else (None, s)) of
        (Some e, s1) \<Rightarrow> (Inl e, s1)
      | (None, s1) \<Rightarrow>
          (case deployments s1 of
             None \<Rightarrow> (Inl TypeError, s1)
           | Some ds \<Rightarrow> (find_deployment w ds modelId, s1)))"

text \<open>
  The match as the specification words it, to compare the code with: a deployment's label
  matches a model identifier when the parts before the first \<^verbatim>\<open>:\<close> are equal after
  lowering the case.
\<close>

definition spec_matches :: "world \<Rightarrow> jsstring \<Rightarrow> jsstring \<Rightarrow> bool" where
  "spec_matches w label modelId =
     (toLowerCase (toLowerCase_wide w) (takeWhile (\<lambda>c. c \<noteq> 58) label)
        = toLowerCase (toLowerCase_wide w) (takeWhile (\<lambda>c. c \<noteq> 58) modelId))"

subsection \<open>The model registry\<close>

text \<open>
  \<^verbatim>\<open>sapAiCoreModels\<close> and \<^verbatim>\<open>sapAiCoreDefaultModelId\<close> are imported from
  \<^verbatim>\<open>shared/api\<close>; they are parameters here. The registry is an object: \<open>sapAiCoreModels\<close>
  maps its own keys to their \<^verbatim>\<open>ModelInfo\<close>, of a type \<open>'i\<close> that the handler only passes
  on, and the object inherits the properties of \<^verbatim>\<open>Object.prototype\<close>, which the operator
  \<^verbatim>\<open>in\<close> finds and an index reads as well as the own keys.
\<close>

record 'i SharedApi =
  sapAiCoreModels :: "jsstring \<Rightarrow> 'i option"
  sapAiCoreDefaultModelId :: jsstring

definition Object_prototype :: "jsstring list" where
  "Object_prototype =
     [js ''constructor'', js ''__defineGetter__'', js ''__defineSetter__'',
      js ''hasOwnProperty'', js ''__lookupGetter__'', js ''__lookupSetter__'',
      js ''isPrototypeOf'', js ''propertyIsEnumerable'', js ''toString'', js ''valueOf'',
      js ''__proto__'', js ''toLocaleString'']"

text \<open>\<^verbatim>\<open>modelId in sapAiCoreModels\<close>\<close>

definition in_sapAiCoreModels :: "'i SharedApi \<Rightarrow> jsstring \<Rightarrow> bool" where
  "in_sapAiCoreModels api modelId =
     (case sapAiCoreModels api modelId of
        Some info \<Rightarrow> True
      | None \<Rightarrow> modelId \<in> set Object_prototype)"

text \<open>
  \<^verbatim>\<open>sapAiCoreModels[id]\<close>: the \<^verbatim>\<open>ModelInfo\<close> of an own key, the inherited value (a
  function, or the prototype) of an inherited name, and \<^verbatim>\<open>undefined\<close> otherwise.
\<close>

datatype 'i property = Own 'i | Inherited | Undefined

definition index_sapAiCoreModels :: "'i SharedApi \<Rightarrow> jsstring \<Rightarrow> 'i property" where
  "index_sapAiCoreModels api key =
     (case sapAiCoreModels api key of
        Some info \<Rightarrow> Own info
      | None \<Rightarrow> if key \<in> set Object_prototype then Inherited else Undefined)"

definition getModel :: "'i SharedApi \<Rightarrow> ApiHandlerOptions \<Rightarrow> jsstring \<times> 'i property" where
  "getModel api opts =
     (case apiModelId opts of
        None \<Rightarrow>
          (sapAiCoreDefaultModelId api, index_sapAiCoreModels api (sapAiCoreDefaultModelId api))
      | Some modelId \<Rightarrow>
          if modelId \<noteq> [] \<and> in_sapAiCoreModels api modelId
          then (modelId, index_sapAiCoreModels api modelId)
          else (sapAiCoreDefaultModelId api,
                index_sapAiCoreModels api (sapAiCoreDefaultModelId api)))"

subsection \<open>The stream parsers\<close>

text \<open>\<^verbatim>\<open>chunk.toString().split("\n").filter(Boolean)\<close>\<close>

definition lines_of :: "jsstring \<Rightarrow> jsstring list" where
  "lines_of chunk = filter (\<lambda>l. l \<noteq> []) (split 10 chunk)"

text \<open>The local variable \<^verbatim>\<open>usage\<close> of \<^verbatim>\<open>streamCompletion\<close>.\<close>

record UsageVar =
  input_tokens_v :: "int option"
  output_tokens_v :: "int option"

text \<open>
  The body of the inner \<^verbatim>\<open>try\<close> of \<^verbatim>\<open>streamCompletion\<close> for one frame: the events it
  yields, the variable afterwards, and the exception that ends it, if any.
\<close>

definition streamCompletion_data ::
  "UsageVar \<Rightarrow> parsed \<Rightarrow> event list \<times> UsageVar \<times> error option" where
  "streamCompletion_data u p =
     (case p of
        Invalid \<Rightarrow> ([], u, Some SyntaxError)
      | JsonNull \<Rightarrow> ([], u, Some TypeError)
      | JsonValue d \<Rightarrow>
          if type_j d = Some (js ''message_start'') then
            (case message d of
               None \<Rightarrow> ([], u, Some TypeError)
             | Some m \<Rightarrow>
                 (case usage_m m of
                    None \<Rightarrow> ([], u, Some TypeError)
                  | Some mu \<Rightarrow>
                      (let u1 = u\<lparr>input_tokens_v := input_tokens mu\<rparr>
                       in ([Usage (input_tokens_v u1) (output_tokens_v u1)], u1, None))))
          else if type_j d = Some (js ''content_block_start'') \<or> type_j d = Some (js ''content_block_delta'') then
            (case (if type_j d = Some (js ''content_block_start'') then content_block d else delta d) of
               None \<Rightarrow> ([], u, Some TypeError)
             | Some contentBlock \<Rightarrow>
                 if type_c contentBlock = Some (js ''text'') \<or> type_c contentBlock = Some (js ''text_delta'')
                 then ([Text (or_else (text_c contentBlock) [])], u, None)
                 else ([], u, None))
          else if type_j d = Some (js ''message_delta'') then
            (case usage d of
               None \<Rightarrow> ([], u, None)
             | Some du \<Rightarrow>
                 ([Usage (Some 0) (output_tokens du)],
                  u\<lparr>output_tokens_v := output_tokens du\<rparr>, None))
          else ([], u, None))"

text \<open>One line: the inner \<^verbatim>\<open>catch\<close> logs the exception and the loop goes on.\<close>

definition streamCompletion_line ::
  "(jsstring \<Rightarrow> parsed) \<Rightarrow> UsageVar \<Rightarrow> jsstring \<Rightarrow> event list \<times> UsageVar" where
  "streamCompletion_line parse u line =
     (if startsWith line (js ''data: '')
      then (case streamCompletion_data u (parse (slice line 6)) of
              (evs, u1, thrown) \<Rightarrow> (evs, u1))
      else ([], u))"

fun streamCompletion_lines ::
  "(jsstring \<Rightarrow> parsed) \<Rightarrow> UsageVar \<Rightarrow> jsstring list \<Rightarrow> event list \<times> UsageVar" where
  "streamCompletion_lines parse u [] = ([], u)"
| "streamCompletion_lines parse u (line # ls) =
     (case streamCompletion_line parse u line of
        (evs, u1) \<Rightarrow>
          (case streamCompletion_lines parse u1 ls of
             (evs2, u2) \<Rightarrow> (evs @ evs2, u2)))"

fun streamCompletion_chunks ::
  "(jsstring \<Rightarrow> parsed) \<Rightarrow> UsageVar \<Rightarrow> jsstring list \<Rightarrow> event list \<times> UsageVar" where
  "streamCompletion_chunks parse u [] = ([], u)"
| "streamCompletion_chunks parse u (chunk # cs) =
     (case streamCompletion_lines parse u (lines_of chunk) of
        (evs, u1) \<Rightarrow>
          (case streamCompletion_chunks parse u1 cs of
             (evs2, u2) \<Rightarrow> (evs @ evs2, u2)))"

text \<open>
  The generator run to its end: the events it yields and the exception it ends with, which
  is the transport's (the outer \<^verbatim>\<open>catch\<close> rethrows it).
\<close>

definition streamCompletion :: "(jsstring \<Rightarrow> parsed) \<Rightarrow> Upstream \<Rightarrow> event list \<times> error option" where
  "streamCompletion parse stream =
     (case streamCompletion_chunks parse
             \<lparr>input_tokens_v = Some 0, output_tokens_v = Some 0\<rparr> (chunks stream) of
        (evs, u) \<Rightarrow> (evs, map_option RequestFailed (broken stream)))"

text \<open>The local variables of \<^verbatim>\<open>streamCompletionGPT\<close>.\<close>

record GptVars =
  currentContent :: jsstring
  inputTokens :: int
  outputTokens :: int

text \<open>\<^verbatim>\<open>x || d\<close> on an optional number: zero is falsy.\<close>

definition num_or :: "int option \<Rightarrow> int \<Rightarrow> int" where
  "num_or x d = (case x of None \<Rightarrow> d | Some n \<Rightarrow> if n = 0 then d else n)"

definition usage_event :: "GptVars \<Rightarrow> event" where
  "usage_event v = Usage (Some (inputTokens v)) (Some (outputTokens v))"

text \<open>The three statements of the inner \<^verbatim>\<open>try\<close> of \<^verbatim>\<open>streamCompletionGPT\<close>, in order.\<close>

definition gpt_choices :: "GptVars \<Rightarrow> Data \<Rightarrow> event list \<times> GptVars \<times> error option" where
  "gpt_choices v d =
     (case choices d of
        None \<Rightarrow> ([], v, None)
      | Some [] \<Rightarrow> ([], v, None)
      | Some (None # rest) \<Rightarrow> ([], v, Some TypeError)
      | Some (Some choice # rest) \<Rightarrow>
          (case delta_c choice of
             None \<Rightarrow> ([], v, None)
           | Some dl \<Rightarrow>
               if truthy (content dl)
               then ([Text (the (content dl))],
                     v\<lparr>currentContent := currentContent v @ the (content dl)\<rparr>, None)
               else ([], v, None)))"

definition gpt_usage :: "GptVars \<Rightarrow> Data \<Rightarrow> event list \<times> GptVars" where
  "gpt_usage v d =
     (case usage d of
        None \<Rightarrow> ([], v)
      | Some u \<Rightarrow>
          (let v1 = v\<lparr>inputTokens := num_or (prompt_tokens u) (inputTokens v)\<rparr>;
               v2 = v1\<lparr>outputTokens := num_or (completion_tokens u) (outputTokens v1)\<rparr>
           in ([usage_event v2], v2)))"

definition gpt_finish :: "GptVars \<Rightarrow> Data \<Rightarrow> event list \<times> error option" where
  "gpt_finish v d =
     (case choices d of
        None \<Rightarrow> ([], None)
      | Some [] \<Rightarrow> ([], Some TypeError)
      | Some (None # rest) \<Rightarrow> ([], Some TypeError)
      | Some (Some choice # rest) \<Rightarrow>
          if finish_reason choice = Some (js ''stop'')
          then (if usage d = None then ([usage_event v], None) else ([], None))
          else ([], None))"

text \<open>An exception in one statement skips the statements after it.\<close>

definition streamCompletionGPT_data ::
  "GptVars \<Rightarrow> parsed \<Rightarrow> event list \<times> GptVars \<times> error option" where
  "streamCompletionGPT_data v p =
     (case p of
        Invalid \<Rightarrow> ([], v, Some SyntaxError)
      | JsonNull \<Rightarrow> ([], v, Some TypeError)
      | JsonValue d \<Rightarrow>
          (case gpt_choices v d of
             (evs1, v1, Some e) \<Rightarrow> (evs1, v1, Some e)
           | (evs1, v1, None) \<Rightarrow>
               (case gpt_usage v1 d of
                  (evs2, v2) \<Rightarrow>
                    (case gpt_finish v2 d of
                       (evs3, thrown) \<Rightarrow> (evs1 @ evs2 @ evs3, v2, thrown)))))"

definition streamCompletionGPT_line ::
  "(jsstring \<Rightarrow> parsed) \<Rightarrow> GptVars \<Rightarrow> jsstring \<Rightarrow> event list \<times> GptVars" where
  "streamCompletionGPT_line parse v line =
     (if startsWith line (js ''data: '')
      then (case streamCompletionGPT_data v (parse (slice line 6)) of
              (evs, v1, thrown) \<Rightarrow> (evs, v1))
      else ([], v))"

text \<open>
  The loops of \<^verbatim>\<open>streamCompletionGPT\<close>; the flag says that the generator has returned at
  the sentinel.
\<close>

fun streamCompletionGPT_lines ::
  "(jsstring \<Rightarrow> parsed) \<Rightarrow> GptVars \<Rightarrow> jsstring list \<Rightarrow> event list \<times> GptVars \<times> bool" where
  "streamCompletionGPT_lines parse v [] = ([], v, False)"
| "streamCompletionGPT_lines parse v (line # ls) =
     (if trim line = (js ''data: [DONE]'') then ([usage_event v], v, True)
      else (case streamCompletionGPT_line parse v line of
              (evs, v1) \<Rightarrow>
                (case streamCompletionGPT_lines parse v1 ls of
                   (evs2, v2, returned) \<Rightarrow> (evs @ evs2, v2, returned))))"

fun streamCompletionGPT_chunks ::
  "(jsstring \<Rightarrow> parsed) \<Rightarrow> GptVars \<Rightarrow> jsstring list \<Rightarrow> event list \<times> GptVars \<times> bool" where
  "streamCompletionGPT_chunks parse v [] = ([], v, False)"
| "streamCompletionGPT_chunks parse v (chunk # cs) =
     (case streamCompletionGPT_lines parse v (lines_of chunk) of
        (evs, v1, returned) \<Rightarrow>
          if returned then (evs, v1, True)
          else (case streamCompletionGPT_chunks parse v1 cs of
                  (evs2, v2, returned2) \<Rightarrow> (evs @ evs2, v2, returned2)))"

definition streamCompletionGPT :: "(jsstring \<Rightarrow> parsed) \<Rightarrow> Upstream \<Rightarrow> event list \<times> error option" where
  "streamCompletionGPT parse stream =
     (case streamCompletionGPT_chunks parse
             \<lparr>currentContent = [], inputTokens = 0, outputTokens = 0\<rparr> (chunks stream) of
        (evs, v, returned) \<Rightarrow>
          (evs, if returned then None else map_option RequestFailed (broken stream)))"

subsection \<open>The request dispatcher\<close>

definition anthropicModels :: "jsstring list" where
  "anthropicModels =
     [(js ''anthropic--claude-3.5-sonnet''), (js ''anthropic--claude-3-sonnet''),
      (js ''anthropic--claude-3-haiku''), (js ''anthropic--claude-3-opus'')]"

definition openAIModels :: "jsstring list" where
  "openAIModels = [(js ''gpt-4o''), (js ''gpt-4''), (js ''gpt-4o-mini'')]"

text \<open>
  \<^verbatim>\<open>createMessage\<close> run to its end: the events it yields, how it ends, and the instance
  afterwards. The request is recorded with its URL and the two headers that vary; the
  payload does not influence what the handler does next and is left out.
\<close>

definition createMessage ::
  "'i SharedApi \<Rightarrow> world \<Rightarrow> SapAiCoreHandler
     \<Rightarrow> event list \<times> (error + unit) \<times> SapAiCoreHandler" where
  "createMessage api w s =
     (case getToken w s of
        (Inl e, s1) \<Rightarrow> ([], Inl e, s1)
      | (Inr bearer, s1) \<Rightarrow>
          (let model_id = fst (getModel api (options s1))
           in case getDeploymentForModel w s1 model_id of
                (Inl e, s2) \<Rightarrow> ([], Inl e, s2)
              | (Inr deploymentId, s2) \<Rightarrow>
                  (case (if model_id \<in> set anthropicModels
                         then Inr (template (sapAiCoreBaseUrl (options s2))
                                     @ (js ''/inference/deployments/'') @ deploymentId
                                     @ (js ''/invoke-with-response-stream''))
                         else if model_id \<in> set openAIModels
                         then Inr (template (sapAiCoreBaseUrl (options s2))
                                     @ (js ''/inference/deployments/'') @ deploymentId
                                     @ (js ''/chat/completions?api-version=2023-05-15''))
                         else Inl (UnsupportedModel model_id)) of
                     Inl e \<Rightarrow> ([], Inl e, s2)
                   | Inr url \<Rightarrow>
                       (let s3 = request (PostInference url bearer
                                            (or_else (sapAiResourceGroup (options s2)) (js ''default''))) s2
                        in case infer_reply w (tick s2) of
                             Inl msg \<Rightarrow> ([], Inl FailedToCreateMessage, s3)
                           | Inr stream \<Rightarrow>
                               (case (if model_id \<in> set openAIModels
                                      then streamCompletionGPT (JSON_parse w) stream
                                      else streamCompletion (JSON_parse w) stream) of
                                  (evs, None) \<Rightarrow> (evs, Inr (), s3)
                                | (evs, Some e) \<Rightarrow> (evs, Inl FailedToCreateMessage, s3))))))"

subsection \<open>Frames for the examples\<close>

text \<open>
  Frames for the examples: the text of each and the value \<^verbatim>\<open>JSON.parse\<close> returns for it.
  \<open>example_parse\<close> agrees with \<^verbatim>\<open>JSON.parse\<close> on these texts, and on the sentinel's
  \<^verbatim>\<open>[DONE]\<close> and the truncated frame, which are not JSON.
\<close>

definition no_usage :: UsageObj where
  "no_usage = \<lparr>input_tokens = None, output_tokens = None, prompt_tokens = None,
                completion_tokens = None\<rparr>"

definition no_data :: Data where
  "no_data = \<lparr>type_j = None, message = None, content_block = None, delta = None,
               usage = None, choices = None\<rparr>"

definition text_message_start :: jsstring where
  \<open>text_message_start = (js ''{"type":"message_start","message":{"usage":{"input_tokens":10}}}'')\<close>

definition data_message_start :: Data where
  "data_message_start =
     no_data\<lparr>type_j := Some (js ''message_start''),
             message := Some \<lparr>usage_m = Some (no_usage\<lparr>input_tokens := Some 10\<rparr>)\<rparr>\<rparr>"

definition text_block_delta :: jsstring where
  \<open>text_block_delta = (js ''{"type":"content_block_delta","delta":{"type":"text_delta","text":"hi"}}'')\<close>

definition data_block_delta :: Data where
  "data_block_delta =
     no_data\<lparr>type_j := Some (js ''content_block_delta''),
             delta := Some \<lparr>type_c = Some (js ''text_delta''), text_c = Some (js ''hi'')\<rparr>\<rparr>"

definition text_message_delta :: jsstring where
  \<open>text_message_delta = (js ''{"type":"message_delta","usage":{"output_tokens":3}}'')\<close>

definition data_message_delta :: Data where
  "data_message_delta =
     no_data\<lparr>type_j := Some (js ''message_delta''),
             usage := Some (no_usage\<lparr>output_tokens := Some 3\<rparr>)\<rparr>"

definition text_gpt_hi :: jsstring where
  \<open>text_gpt_hi = (js ''{"choices":[{"delta":{"content":"hi"}}]}'')\<close>

definition data_gpt_hi :: Data where
  "data_gpt_hi =
     no_data\<lparr>choices :=
       Some [Some \<lparr>delta_c = Some \<lparr>content = Some (js ''hi'')\<rparr>, finish_reason = None\<rparr>]\<rparr>"

definition text_gpt_usage :: jsstring where
  \<open>text_gpt_usage = (js ''{"choices":[],"usage":{"prompt_tokens":12,"completion_tokens":0}}'')\<close>

definition data_gpt_usage :: Data where
  "data_gpt_usage =
     no_data\<lparr>choices := Some [],
             usage := Some (no_usage\<lparr>prompt_tokens := Some 12, completion_tokens := Some 0\<rparr>)\<rparr>"

definition text_gpt_stop :: jsstring where
  \<open>text_gpt_stop = (js ''{"choices":[{"delta":{},"finish_reason":"stop"}]}'')\<close>

definition data_gpt_stop :: Data where
  "data_gpt_stop =
     no_data\<lparr>choices :=
       Some [Some \<lparr>delta_c = Some \<lparr>content = None\<rparr>, finish_reason = Some (js ''stop'')\<rparr>]\<rparr>"

definition text_gpt_totals :: jsstring where
  \<open>text_gpt_totals = (js ''{"choices":[],"usage":{"prompt_tokens":5,"completion_tokens":7}}'')\<close>

definition data_gpt_totals :: Data where
  "data_gpt_totals =
     no_data\<lparr>choices := Some [],
             usage := Some (no_usage\<lparr>prompt_tokens := Some 5, completion_tokens := Some 7\<rparr>)\<rparr>"

definition text_gpt_null_choice :: jsstring where
  \<open>text_gpt_null_choice = (js ''{"choices":[null],"usage":{"prompt_tokens":12,"completion_tokens":4}}'')\<close>

definition data_gpt_null_choice :: Data where
  "data_gpt_null_choice =
     no_data\<lparr>choices := Some [None],
             usage := Some (no_usage\<lparr>prompt_tokens := Some 12, completion_tokens := Some 4\<rparr>)\<rparr>"

definition text_truncated :: jsstring where
  \<open>text_truncated = (js ''{"type":"content_block_delta","delta":{"type":"text_del'')\<close>

definition example_parse :: "jsstring \<Rightarrow> parsed" where
  "example_parse text =
     (if text = text_message_start then JsonValue data_message_start
      else if text = text_block_delta then JsonValue data_block_delta
      else if text = text_message_delta then JsonValue data_message_delta
      else if text = text_gpt_hi then JsonValue data_gpt_hi
      else if text = text_gpt_usage then JsonValue data_gpt_usage
      else if text = text_gpt_stop then JsonValue data_gpt_stop
      else if text = text_gpt_null_choice then JsonValue data_gpt_null_choice
      else if text = text_gpt_totals then JsonValue data_gpt_totals
      else Invalid)"

text \<open>A line of the stream: the frame's text after \<^verbatim>\<open>data: \<close>, then a newline.\<close>

definition frame_line :: "jsstring \<Rightarrow> jsstring" where
  "frame_line text = (js ''data: '') @ text @ [10]"

subsection \<open>Examples\<close>

definition example_options :: ApiHandlerOptions where
  "example_options =
     \<lparr>apiModelId = Some (js ''my-own-model''),
      sapAiCoreClientId = Some (js ''client''),
      sapAiCoreClientSecret = Some (js ''secret''),
      sapAiCoreTokenUrl = Some (js ''https://auth.example/oauth/token''),
      sapAiCoreBaseUrl = Some (js ''https://api.example/v2''),
      sapAiResourceGroup = None\<rparr>"

definition example_response :: TokenResponse where
  "example_response =
     \<lparr>access_token = (js ''t-new''), expires_in = 3600, scope = (js ''all''), jti = (js ''j1''),
      token_type = (js ''bearer'')\<rparr>"

definition example_token :: "int \<Rightarrow> Token" where
  "example_token at =
     \<lparr>access_token = (js ''t-old''), expires_in = 3600, scope = (js ''all''), jti = (js ''j0''),
      token_type = (js ''bearer''), exipres_at = at\<rparr>"

definition resource :: "jsstring \<Rightarrow> jsstring \<Rightarrow> jsstring option \<Rightarrow> jsstring option \<Rightarrow> Resource" where
  "resource i st n v =
     \<lparr>id_r = i, targetStatus = st,
      details = Some \<lparr>resources_d = Some \<lparr>backend_details =
        Some \<lparr>model_b = Some \<lparr>name_m = n, version_m = v\<rparr>\<rparr>\<rparr>\<rparr>\<rparr>"

definition example_world :: world where
  "example_world =
     \<lparr>clock = (\<lambda>n. 1000 + int n),
      auth_reply = (\<lambda>n. Inr example_response),
      list_reply =
        (\<lambda>n. Inr [resource (js ''d1'') (js ''RUNNING'') (Some (js ''my-own-model'')) (Some (js ''1''))]),
      infer_reply = (\<lambda>n. Inl (js ''no reply'')),
      JSON_parse = example_parse,
      toLowerCase_wide = (\<lambda>s. s)\<rparr>"

definition example_api :: "unit SharedApi" where
  "example_api =
     \<lparr>sapAiCoreModels =
        (\<lambda>m. if m = (js ''my-own-model'') \<or> m = (js ''gpt-4o'') then Some () else None),
      sapAiCoreDefaultModelId = (js ''gpt-4o'')\<rparr>"


subsection \<open>The instances a host can hold\<close>

text \<open>
  The fields of the class are private: an instance is what the constructor returns, or what
  a run of \<^verbatim>\<open>createMessage\<close>, the one method that assigns to them, leaves behind.
\<close>

inductive reachable :: "'i SharedApi \<Rightarrow> world \<Rightarrow> ApiHandlerOptions \<Rightarrow> SapAiCoreHandler \<Rightarrow> bool"
  for api :: "'i SharedApi" and w :: world and opts :: ApiHandlerOptions where
  constructed: "reachable api w opts (new_handler opts)"
| ran: "reachable api w opts s \<Longrightarrow> reachable api w opts (snd (snd (createMessage api w s)))"

definition unconfigured_options :: ApiHandlerOptions where
  "unconfigured_options =
     \<lparr>apiModelId = Some (js ''gpt-4o''),
      sapAiCoreClientId = Some [],
      sapAiCoreClientSecret = Some [],
      sapAiCoreTokenUrl = Some [],
      sapAiCoreBaseUrl = Some [],
      sapAiResourceGroup = None\<rparr>"

definition example_resources :: "Resource list" where
  "example_resources =
     [resource (js ''d1'') (js ''RUNNING'') (Some (js ''gpt-4o'')) (Some (js ''2024-05-13'')),
      resource (js ''d2'') (js ''STOPPED'') (Some (js ''gpt-4'')) (Some (js ''0613'')),
      resource (js ''d3'') (js ''RUNNING'') None (Some (js ''1'')),
      resource (js ''d4'') (js ''RUNNING'') (Some (js ''gpt-4o-mini'')) None,
      \<lparr>id_r = (js ''d5''), targetStatus = (js ''RUNNING''), details = None\<rparr>,
      resource (js ''d6'') (js ''RUNNING'') (Some (js ''anthropic--claude-3-haiku'')) (Some (js ''1''))]"

section \<open>Properties\<close>

subsection \<open>Literals\<close>

lemma js_eq_iff [simp]: "js a = js b \<longleftrightarrow> a = b"
  by (simp add: js_def inj_map_eq_map inj_on_def)

lemma js_Nil_iff [simp]: "js a = [] \<longleftrightarrow> a = []" "[] = js a \<longleftrightarrow> a = []"
  by (auto simp add: js_def)

lemma length_js [simp]: "length (js a) = length a"
  by (simp add: js_def)

lemma sentinel_text: "js ''data: '' @ js ''[DONE]'' = js ''data: [DONE]''"
  by (simp add: js_def)


subsection \<open>The credential manager\<close>

lemma getToken_new_calls:
  "\<exists>cs. calls (snd (getToken w s)) = calls s @ cs \<and> list_all is_auth cs"
  by (auto simp add: getToken_def authenticate_def request_def date_now_def Let_def
      split: sum.splits option.splits prod.splits)

lemma getToken_keeps:
  "options (snd (getToken w s)) = options s \<and> deployments (snd (getToken w s)) = deployments s"
  by (auto simp add: getToken_def authenticate_def request_def date_now_def Let_def
      split: sum.splits option.splits prod.splits)

text \<open>
  C2. When the cached token expires after the instant \<^verbatim>\<open>getToken\<close> reads, it returns the
  cached bearer token, issues no request and keeps the cache. When no token is cached, or
  the cached token expired before that instant, it issues exactly one request, the
  authentication; the token it then returns is the one of that reply, cached with its
  expiry, and a failed authentication is the exception of the call.
\<close>

theorem getToken_cached_or_one_authentication:
  "(\<forall>t. token s = Some t \<and> clock w (tick s) < exipres_at t \<longrightarrow>
        fst (getToken w s) = Inr (access_token t)
      \<and> calls (snd (getToken w s)) = calls s
      \<and> token (snd (getToken w s)) = Some t)
 \<and> (token s = None \<or> (\<exists>t. token s = Some t \<and> exipres_at t < clock w (tick s)) \<longrightarrow>
       (\<exists>c. is_auth c \<and> calls (snd (getToken w s)) = calls s @ [c])
     \<and> (let k = (if token s = None then tick s else Suc (tick s))
        in case auth_reply w k of
             Inl msg \<Rightarrow> fst (getToken w s) = Inl (RequestFailed msg)
                        \<and> token (snd (getToken w s)) = token s
           | Inr r \<Rightarrow>
               fst (getToken w s) = Inr (access_token r)
             \<and> (\<exists>t'. token (snd (getToken w s)) = Some t'
                    \<and> access_token t' = access_token r
                    \<and> exipres_at t' = clock w (Suc k) + expires_in r * 1000)))"
  by (auto simp add: getToken_def authenticate_def request_def date_now_def Let_def
      split: sum.splits option.splits prod.splits)

theorem getToken_cached_or_one_authentication_witness:
  "token ((new_handler example_options)\<lparr>token := Some (example_token 5000)\<rparr>)
     = Some (example_token 5000)
 \<and> clock example_world (tick ((new_handler example_options)\<lparr>token := Some (example_token 5000)\<rparr>))
     < exipres_at (example_token 5000)
 \<and> fst (getToken example_world ((new_handler example_options)\<lparr>token := Some (example_token 5000)\<rparr>))
     = Inr (js ''t-old'')
 \<and> calls (snd (getToken example_world
       ((new_handler example_options)\<lparr>token := Some (example_token 5000)\<rparr>))) = []
 \<and> exipres_at (example_token 7)
     < clock example_world (tick ((new_handler example_options)\<lparr>token := Some (example_token 7)\<rparr>))
 \<and> fst (getToken example_world ((new_handler example_options)\<lparr>token := Some (example_token 7)\<rparr>))
     = Inr (js ''t-new'')
 \<and> (\<exists>c. is_auth c \<and> calls (snd (getToken example_world
       ((new_handler example_options)\<lparr>token := Some (example_token 7)\<rparr>))) = [c])
 \<and> token (new_handler example_options) = None
 \<and> fst (getToken example_world (new_handler example_options)) = Inr (js ''t-new'')
 \<and> (\<exists>c. is_auth c \<and> calls (snd (getToken example_world (new_handler example_options))) = [c])"
proof -
  let ?a = "(new_handler example_options)\<lparr>token := Some (example_token 5000)\<rparr>"
  let ?b = "(new_handler example_options)\<lparr>token := Some (example_token 7)\<rparr>"
  let ?c = "new_handler example_options"
  have a: "token ?a = Some (example_token 5000)
             \<and> clock example_world (tick ?a) < exipres_at (example_token 5000)"
    by (simp add: new_handler_def example_world_def example_token_def)
  have b: "token ?b = Some (example_token 7)
             \<and> exipres_at (example_token 7) < clock example_world (tick ?b)"
    by (simp add: new_handler_def example_world_def example_token_def)
  have c: "token ?c = None"
    by (simp add: new_handler_def)
  have ra: "auth_reply example_world (Suc (tick ?b)) = Inr example_response"
       "auth_reply example_world (tick ?c) = Inr example_response"
       "access_token example_response = (js ''t-new'')"
       "access_token (example_token 5000) = (js ''t-old'')"
       "calls ?a = []" "calls ?b = []" "calls ?c = []"
    by (simp_all add: example_world_def example_response_def example_token_def new_handler_def)
  from a getToken_cached_or_one_authentication [of ?a example_world]
  have A: "fst (getToken example_world ?a) = Inr (js ''t-old'')
             \<and> calls (snd (getToken example_world ?a)) = []"
    using ra by simp
  from b getToken_cached_or_one_authentication [of ?b example_world]
  have B: "fst (getToken example_world ?b) = Inr (js ''t-new'')
             \<and> (\<exists>c. is_auth c \<and> calls (snd (getToken example_world ?b)) = [c])"
    using ra by (simp add: Let_def)
  from c getToken_cached_or_one_authentication [of ?c example_world]
  have C: "fst (getToken example_world ?c) = Inr (js ''t-new'')
             \<and> (\<exists>c. is_auth c \<and> calls (snd (getToken example_world ?c)) = [c])"
    using ra by (simp add: Let_def)
  from a b c A B C show ?thesis by blast
qed

lemma getToken_error: "fst (getToken w s) = Inl e \<Longrightarrow> \<exists>msg. e = RequestFailed msg"
  by (auto simp add: getToken_def authenticate_def request_def date_now_def Let_def
      split: sum.splits option.splits prod.splits if_splits)

subsection \<open>The deployment resolver\<close>

lemma split_not_Nil: "split sep s \<noteq> []"
  by (induction s) (auto split: list.splits)

lemma hd_split: "hd (split sep s) = takeWhile (\<lambda>c. c \<noteq> sep) s"
  by (induction s) (auto split: list.splits simp: split_not_Nil)

lemma to_deployment_Some:
  "to_deployment r = Some d \<longleftrightarrow>
     (\<exists>m n v. backend_model r = Some m \<and> name_m m = Some n \<and> n \<noteq> [] \<and> version_m m = Some v
        \<and> v \<noteq> [] \<and> d = \<lparr>id_d = id_r r, name_d = n @ (js '':'') @ v\<rparr>)"
  by (auto simp add: to_deployment_def truthy_def template_def split: option.splits)

lemma to_deployment_None:
  "to_deployment r = None \<longleftrightarrow>
     \<not> (\<exists>m n v. backend_model r = Some m \<and> name_m m = Some n \<and> n \<noteq> [] \<and> version_m m = Some v
        \<and> v \<noteq> [])"
  by (auto simp add: to_deployment_def truthy_def template_def split: option.splits)

lemma kept_rows:
  "map the (filter (\<lambda>d. d \<noteq> None) (map to_deployment rs)) =
     map (\<lambda>r. \<lparr>id_d = id_r r,
                name_d = the (name_m (the (backend_model r))) @ (js '':'')
                         @ the (version_m (the (backend_model r)))\<rparr>)
       (filter (\<lambda>r. \<exists>m n v. backend_model r = Some m \<and> name_m m = Some n \<and> n \<noteq> []
                      \<and> version_m m = Some v \<and> v \<noteq> []) rs)"
proof (induction rs)
  case Nil
  then show ?case by simp
next
  case (Cons r rs)
  show ?case
  proof (cases "to_deployment r")
    case None
    then show ?thesis using Cons by (simp add: to_deployment_None)
  next
    case (Some d)
    then obtain m n v where "backend_model r = Some m" "name_m m = Some n" "n \<noteq> []"
      "version_m m = Some v" "v \<noteq> []" "d = \<lparr>id_d = id_r r, name_d = n @ (js '':'') @ v\<rparr>"
      by (auto simp add: to_deployment_Some)
    then show ?thesis using Cons Some by simp
  qed
qed

text \<open>
  C4 (amended). The deployments \<^verbatim>\<open>getAiCoreDeployments\<close> makes of a listing are, in the
  listing's order, exactly its entries whose \<^verbatim>\<open>targetStatus\<close> is \<^verbatim>\<open>"RUNNING"\<close> and whose
  backend model has a name and a version that are both non-empty strings, each with its
  identifier and the label \<^verbatim>\<open>name:version\<close>; this list is what the call returns when the
  client secret is not the empty string, the token is obtained and the listing succeeds.
\<close>

theorem running_deployments_exactly:
  "running_deployments rs =
     map (\<lambda>r. \<lparr>id_d = id_r r,
                name_d = the (name_m (the (backend_model r))) @ (js '':'')
                         @ the (version_m (the (backend_model r)))\<rparr>)
       (filter (\<lambda>r. targetStatus r = (js ''RUNNING'')
                    \<and> (\<exists>m n v. backend_model r = Some m \<and> name_m m = Some n \<and> n \<noteq> []
                          \<and> version_m m = Some v \<and> v \<noteq> [])) rs)
 \<and> (sapAiCoreClientSecret (options s) \<noteq> Some [] \<and> getToken w s = (Inr bearer, s1)
      \<and> list_reply w (tick s1) = Inr rs
    \<longrightarrow> fst (getAiCoreDeployments w s) = Inr (running_deployments rs))"
proof -
  have "filter (\<lambda>r. \<exists>m n v. backend_model r = Some m \<and> name_m m = Some n \<and> n \<noteq> []
                      \<and> version_m m = Some v \<and> v \<noteq> [])
          (filter (\<lambda>r. targetStatus r = (js ''RUNNING'')) rs)
        = filter (\<lambda>r. targetStatus r = (js ''RUNNING'')
                    \<and> (\<exists>m n v. backend_model r = Some m \<and> name_m m = Some n \<and> n \<noteq> []
                          \<and> version_m m = Some v \<and> v \<noteq> [])) rs"
    by (simp add: conj_commute)
  then have "running_deployments rs =
     map (\<lambda>r. \<lparr>id_d = id_r r,
                name_d = the (name_m (the (backend_model r))) @ (js '':'')
                         @ the (version_m (the (backend_model r)))\<rparr>)
       (filter (\<lambda>r. targetStatus r = (js ''RUNNING'')
                    \<and> (\<exists>m n v. backend_model r = Some m \<and> name_m m = Some n \<and> n \<noteq> []
                          \<and> version_m m = Some v \<and> v \<noteq> [])) rs)"
    unfolding running_deployments_def kept_rows by simp
  moreover have "sapAiCoreClientSecret (options s) \<noteq> Some [] \<and> getToken w s = (Inr bearer, s1)
      \<and> list_reply w (tick s1) = Inr rs
    \<longrightarrow> fst (getAiCoreDeployments w s) = Inr (running_deployments rs)"
    by (simp add: getAiCoreDeployments_def Let_def)
  ultimately show ?thesis by blast
qed

lemma getAiCoreDeployments_new_calls:
  "\<exists>cs. calls (snd (getAiCoreDeployments w s)) = calls s @ cs
        \<and> list_all (\<lambda>c. is_auth c \<or> is_listing c) cs
        \<and> length (filter is_listing cs) \<le> 1
        \<and> (sapAiCoreClientSecret (options s) \<noteq> Some [] \<and> (\<exists>b. fst (getToken w s) = Inr b)
             \<longrightarrow> length (filter is_listing cs) = 1)"
proof (cases "sapAiCoreClientSecret (options s) = Some []")
  case True
  then show ?thesis by (simp add: getAiCoreDeployments_def)
next
  case False
  obtain cs where cs: "calls (snd (getToken w s)) = calls s @ cs" "list_all is_auth cs"
    using getToken_new_calls by blast
  have nol: "filter is_listing cs = []"
    using cs(2) by (induction cs) (auto elim: is_auth.elims)
  have au: "list_all (\<lambda>c. is_auth c \<or> is_listing c) cs"
    using cs(2) by (induction cs) auto
  show ?thesis
  proof (cases "getToken w s")
    case (Pair r s1)
    show ?thesis
    proof (cases r)
      case (Inl e)
      with Pair False cs nol au show ?thesis
        by (simp add: getAiCoreDeployments_def)
    next
      case (Inr b)
      with Pair False cs nol au show ?thesis
        by (auto simp add: getAiCoreDeployments_def Let_def request_def split: sum.splits)
    qed
  qed
qed

lemma getAiCoreDeployments_error:
  "fst (getAiCoreDeployments w s) = Inl e \<Longrightarrow>
     e = FailedToFetchDeployments \<or> (\<exists>msg. e = RequestFailed msg)"
  using getToken_error [of w s]
  by (auto simp add: getAiCoreDeployments_def Let_def split: if_splits prod.splits sum.splits)

lemma getAiCoreDeployments_keeps:
  "options (snd (getAiCoreDeployments w s)) = options s
     \<and> deployments (snd (getAiCoreDeployments w s)) = deployments s"
  using getToken_keeps [of w s]
  by (auto simp add: getAiCoreDeployments_def Let_def request_def split: prod.splits sum.splits)

lemma base_names_match:
  "deploymentBaseName w d = modelBaseName w m \<longleftrightarrow> spec_matches w (name_d d) m"
  by (simp add: deploymentBaseName_def modelBaseName_def spec_matches_def hd_split)

lemma find_first: "\<forall>x\<in>set pre. \<not> P x \<Longrightarrow> P x0 \<Longrightarrow> find P (pre @ x0 # post) = Some x0"
  by (induction pre) auto

lemma find_deployment_first:
  assumes "\<forall>d\<in>set pre. \<not> spec_matches w (name_d d) m" and "spec_matches w (name_d d0) m"
  shows "find_deployment w (pre @ d0 # post) m = Inr (id_d d0)"
  using find_first [of pre "\<lambda>d. deploymentBaseName w d = modelBaseName w m" d0 post] assms
  by (simp add: find_deployment_def base_names_match)

lemma find_deployment_none:
  assumes "\<forall>d\<in>set ds. \<not> spec_matches w (name_d d) m"
  shows "find_deployment w ds m = Inl (NoRunningDeployment m)"
proof -
  have "find (\<lambda>d. deploymentBaseName w d = modelBaseName w m) ds = None"
    using assms by (simp add: find_None_iff base_names_match)
  then show ?thesis by (simp add: find_deployment_def)
qed

lemma hasDeploymentForModel_iff:
  "hasDeploymentForModel w s m \<longleftrightarrow>
     (\<exists>ds. deployments s = Some ds \<and> (\<exists>d\<in>set ds. spec_matches w (name_d d) m))"
  by (auto simp add: hasDeploymentForModel_def list_ex_iff base_names_match split: option.splits)

lemma example_labels_match:
  "spec_matches w (js ''claude-3-5-sonnet:v1'') (js ''claude-3-5-sonnet:20241022'')"
  by (simp add: spec_matches_def js_def)

text \<open>
  C3. A deployment matches a model identifier when the parts of its label and of the
  identifier before the first \<^verbatim>\<open>:\<close> are equal after lowering the case. When the cached
  list has a matching entry, the identifier of the first one is returned and nothing is
  requested; the entry \<^verbatim>\<open>claude-3-5-sonnet:v1\<close> matches the request
  \<^verbatim>\<open>claude-3-5-sonnet:20241022\<close>. When there is no cached list, or no entry of it matches,
  the list is fetched once (at most one listing request, and exactly one when the secret is
  configured and the token is obtained); a failed fetch is the exception of the call, and
  otherwise the fetched list replaces the cache and the result is the identifier of its
  first matching entry or, when none matches, the error of no running deployment that names
  the requested model.
\<close>

theorem getDeploymentForModel_resolution:
  "(deployments s = Some (pre @ d0 # post) \<and> spec_matches w (name_d d0) m
      \<and> (\<forall>d\<in>set pre. \<not> spec_matches w (name_d d) m)
      \<longrightarrow> getDeploymentForModel w s m = (Inr (id_d d0), s))
 \<and> (deployments s = Some [\<lparr>id_d = i, name_d = js ''claude-3-5-sonnet:v1''\<rparr>]
      \<longrightarrow> getDeploymentForModel w s (js ''claude-3-5-sonnet:20241022'') = (Inr i, s))
 \<and> (deployments s = None
        \<or> (\<exists>ds. deployments s = Some ds \<and> (\<forall>d\<in>set ds. \<not> spec_matches w (name_d d) m))
      \<longrightarrow>
       (\<exists>cs. calls (snd (getDeploymentForModel w s m)) = calls s @ cs
            \<and> list_all (\<lambda>c. is_auth c \<or> is_listing c) cs
            \<and> length (filter is_listing cs) \<le> 1
            \<and> (sapAiCoreClientSecret (options s) \<noteq> Some [] \<and> (\<exists>b. fst (getToken w s) = Inr b)
                 \<longrightarrow> length (filter is_listing cs) = 1))
     \<and> (case getAiCoreDeployments w s of
          (Inl e, s1) \<Rightarrow> getDeploymentForModel w s m = (Inl e, s1)
        | (Inr fetched, s1) \<Rightarrow>
            snd (getDeploymentForModel w s m) = s1\<lparr>deployments := Some fetched\<rparr>
          \<and> ((\<forall>d\<in>set fetched. \<not> spec_matches w (name_d d) m)
                \<longrightarrow> fst (getDeploymentForModel w s m) = Inl (NoRunningDeployment m))
          \<and> (\<forall>pre1 d1 post1.
                fetched = pre1 @ d1 # post1 \<and> spec_matches w (name_d d1) m
                  \<and> (\<forall>d\<in>set pre1. \<not> spec_matches w (name_d d) m)
                \<longrightarrow> fst (getDeploymentForModel w s m) = Inr (id_d d1))))"
proof -
  have B: "deployments s = Some (pre @ d0 # post) \<and> spec_matches w (name_d d0) m
      \<and> (\<forall>d\<in>set pre. \<not> spec_matches w (name_d d) m)
      \<longrightarrow> getDeploymentForModel w s m = (Inr (id_d d0), s)"
  proof
    assume h: "deployments s = Some (pre @ d0 # post) \<and> spec_matches w (name_d d0) m
      \<and> (\<forall>d\<in>set pre. \<not> spec_matches w (name_d d) m)"
    then have "hasDeploymentForModel w s m"
      by (auto simp add: hasDeploymentForModel_iff)
    moreover have "find_deployment w (pre @ d0 # post) m = Inr (id_d d0)"
      using h find_deployment_first [of pre w m d0 post] by blast
    ultimately show "getDeploymentForModel w s m = (Inr (id_d d0), s)"
      using h by (simp add: getDeploymentForModel_def)
  qed
  have C: "deployments s = Some [\<lparr>id_d = i, name_d = js ''claude-3-5-sonnet:v1''\<rparr>]
      \<longrightarrow> getDeploymentForModel w s (js ''claude-3-5-sonnet:20241022'') = (Inr i, s)"
  proof
    let ?d = "\<lparr>id_d = i, name_d = js ''claude-3-5-sonnet:v1''\<rparr>"
    let ?m = "js ''claude-3-5-sonnet:20241022''"
    assume h: "deployments s = Some [?d]"
    have sm: "spec_matches w (name_d ?d) ?m"
      using example_labels_match [of w] by simp
    then have "hasDeploymentForModel w s ?m"
      using h by (simp add: hasDeploymentForModel_iff)
    moreover have "find_deployment w ([] @ ?d # []) ?m = Inr (id_d ?d)"
      by (rule find_deployment_first) (simp_all add: example_labels_match)
    ultimately show "getDeploymentForModel w s ?m = (Inr i, s)"
      using h by (simp add: getDeploymentForModel_def)
  qed
  have DE: "deployments s = None
        \<or> (\<exists>ds. deployments s = Some ds \<and> (\<forall>d\<in>set ds. \<not> spec_matches w (name_d d) m))
      \<longrightarrow>
       (\<exists>cs. calls (snd (getDeploymentForModel w s m)) = calls s @ cs
            \<and> list_all (\<lambda>c. is_auth c \<or> is_listing c) cs
            \<and> length (filter is_listing cs) \<le> 1
            \<and> (sapAiCoreClientSecret (options s) \<noteq> Some [] \<and> (\<exists>b. fst (getToken w s) = Inr b)
                 \<longrightarrow> length (filter is_listing cs) = 1))
     \<and> (case getAiCoreDeployments w s of
          (Inl e, s1) \<Rightarrow> getDeploymentForModel w s m = (Inl e, s1)
        | (Inr fetched, s1) \<Rightarrow>
            snd (getDeploymentForModel w s m) = s1\<lparr>deployments := Some fetched\<rparr>
          \<and> ((\<forall>d\<in>set fetched. \<not> spec_matches w (name_d d) m)
                \<longrightarrow> fst (getDeploymentForModel w s m) = Inl (NoRunningDeployment m))
          \<and> (\<forall>pre1 d1 post1.
                fetched = pre1 @ d1 # post1 \<and> spec_matches w (name_d d1) m
                  \<and> (\<forall>d\<in>set pre1. \<not> spec_matches w (name_d d) m)
                \<longrightarrow> fst (getDeploymentForModel w s m) = Inr (id_d d1)))"
  proof (intro impI conjI)
    assume "deployments s = None
        \<or> (\<exists>ds. deployments s = Some ds \<and> (\<forall>d\<in>set ds. \<not> spec_matches w (name_d d) m))"
    then have miss: "deployments s = None \<or> \<not> hasDeploymentForModel w s m"
      by (auto simp add: hasDeploymentForModel_iff)
    have "calls (snd (getDeploymentForModel w s m)) = calls (snd (getAiCoreDeployments w s))"
      using miss
      by (auto simp add: getDeploymentForModel_def split: prod.splits sum.splits option.splits)
    then show "\<exists>cs. calls (snd (getDeploymentForModel w s m)) = calls s @ cs
            \<and> list_all (\<lambda>c. is_auth c \<or> is_listing c) cs
            \<and> length (filter is_listing cs) \<le> 1
            \<and> (sapAiCoreClientSecret (options s) \<noteq> Some [] \<and> (\<exists>b. fst (getToken w s) = Inr b)
                 \<longrightarrow> length (filter is_listing cs) = 1)"
      using getAiCoreDeployments_new_calls [of w s] by simp
    obtain r s1 where g: "getAiCoreDeployments w s = (r, s1)"
      by (cases "getAiCoreDeployments w s")
    show "case getAiCoreDeployments w s of
          (Inl e, s1) \<Rightarrow> getDeploymentForModel w s m = (Inl e, s1)
        | (Inr fetched, s1) \<Rightarrow>
            snd (getDeploymentForModel w s m) = s1\<lparr>deployments := Some fetched\<rparr>
          \<and> ((\<forall>d\<in>set fetched. \<not> spec_matches w (name_d d) m)
                \<longrightarrow> fst (getDeploymentForModel w s m) = Inl (NoRunningDeployment m))
          \<and> (\<forall>pre1 d1 post1.
                fetched = pre1 @ d1 # post1 \<and> spec_matches w (name_d d1) m
                  \<and> (\<forall>d\<in>set pre1. \<not> spec_matches w (name_d d) m)
                \<longrightarrow> fst (getDeploymentForModel w s m) = Inr (id_d d1))"
    proof (cases r)
      case (Inl e)
      then show ?thesis using g miss
        by (auto simp add: getDeploymentForModel_def)
    next
      case (Inr fetched)
      have res: "getDeploymentForModel w s m
                   = (find_deployment w fetched m, s1\<lparr>deployments := Some fetched\<rparr>)"
        using g Inr miss by (auto simp add: getDeploymentForModel_def)
      show ?thesis
        unfolding g Inr using res find_deployment_none [of fetched w m]
          find_deployment_first [of _ w m]
        by auto
    qed
  qed
  show ?thesis
    by (rule conjI [OF B conjI [OF C DE]])
qed

lemma getDeploymentForModel_new_calls:
  "\<exists>cs. calls (snd (getDeploymentForModel w s m)) = calls s @ cs
        \<and> list_all (\<lambda>c. is_auth c \<or> is_listing c) cs"
proof (cases "deployments s = None \<or> \<not> hasDeploymentForModel w s m")
  case True
  then have "calls (snd (getDeploymentForModel w s m)) = calls (snd (getAiCoreDeployments w s))"
    by (auto simp add: getDeploymentForModel_def split: prod.splits sum.splits option.splits)
  then show ?thesis using getAiCoreDeployments_new_calls [of w s] by auto
next
  case False
  then have "snd (getDeploymentForModel w s m) = s"
    by (auto simp add: getDeploymentForModel_def split: prod.splits sum.splits option.splits)
  then show ?thesis by simp
qed

lemma getDeploymentForModel_options:
  "options (snd (getDeploymentForModel w s m)) = options s"
  using getAiCoreDeployments_keeps [of w s]
  by (auto simp add: getDeploymentForModel_def split: prod.splits sum.splits option.splits if_splits)

lemma getDeploymentForModel_error:
  "fst (getDeploymentForModel w s m) = Inl e \<Longrightarrow>
     e = NoRunningDeployment m \<or> e = FailedToFetchDeployments \<or> e = TypeError
       \<or> (\<exists>msg. e = RequestFailed msg)"
  using getAiCoreDeployments_error [of w s]
  by (auto simp add: getDeploymentForModel_def find_deployment_def
      split: prod.splits sum.splits option.splits if_splits)

lemma getAiCoreDeployments_unconfigured:
  "sapAiCoreClientSecret (options s) = Some [] \<Longrightarrow> getAiCoreDeployments w s = (Inr [sentinel], s)"
  by (simp add: getAiCoreDeployments_def)

lemma getDeploymentForModel_unconfigured:
  assumes "sapAiCoreClientSecret (options s) = Some []"
    and "deployments s = None \<or> deployments s = Some [sentinel]"
  shows "deployments (snd (getDeploymentForModel w s m)) = Some [sentinel]"
  using assms
  by (auto simp add: getDeploymentForModel_def getAiCoreDeployments_unconfigured
      split: prod.splits sum.splits option.splits)

subsection \<open>The request dispatcher and the registry\<close>

lemma createMessage_no_stream:
  assumes "fst (getModel api (options s)) \<notin> set anthropicModels"
    and "fst (getModel api (options s)) \<notin> set openAIModels"
  shows "createMessage api w s =
     (case getToken w s of
        (Inl e, s1) \<Rightarrow> ([], Inl e, s1)
      | (Inr bearer, s1) \<Rightarrow>
          (case getDeploymentForModel w s1 (fst (getModel api (options s))) of
             (Inl e, s2) \<Rightarrow> ([], Inl e, s2)
           | (Inr d, s2) \<Rightarrow> ([], Inl (UnsupportedModel (fst (getModel api (options s)))), s2)))"
  using assms getToken_keeps [of w s]
  by (auto simp add: createMessage_def Let_def split: prod.splits sum.splits)

text \<open>
  C1 (amended). For a model identifier in neither list, \<^verbatim>\<open>createMessage\<close> yields no event,
  ends with an exception and never issues the inference request: the requests it issues
  are authentication and deployment listing only. When the token is obtained and the
  deployment is resolved, the exception is the unsupported-model error naming the model.
\<close>

theorem createMessage_unsupported_model:
  assumes "fst (getModel api (options s)) \<notin> set anthropicModels"
    and "fst (getModel api (options s)) \<notin> set openAIModels"
  shows "fst (createMessage api w s) = []
     \<and> (\<exists>e. fst (snd (createMessage api w s)) = Inl e)
     \<and> (\<exists>cs. calls (snd (snd (createMessage api w s))) = calls s @ cs
            \<and> list_all (\<lambda>c. is_auth c \<or> is_listing c) cs
            \<and> filter is_inference cs = [])
     \<and> (\<forall>bearer s1 d s2.
           getToken w s = (Inr bearer, s1)
         \<and> getDeploymentForModel w s1 (fst (getModel api (options s))) = (Inr d, s2)
         \<longrightarrow> createMessage api w s
               = ([], Inl (UnsupportedModel (fst (getModel api (options s)))), s2))"
proof -
  note cm = createMessage_no_stream [OF assms, of w]
  obtain r s1 where t: "getToken w s = (r, s1)" by (cases "getToken w s")
  obtain cs1 where cs1: "calls s1 = calls s @ cs1" "list_all is_auth cs1"
    using getToken_new_calls [of w s] t by auto
  obtain r2 s2 where g: "getDeploymentForModel w s1 (fst (getModel api (options s))) = (r2, s2)"
    by (cases "getDeploymentForModel w s1 (fst (getModel api (options s)))")
  obtain cs2 where cs2: "calls s2 = calls s1 @ cs2" "list_all (\<lambda>c. is_auth c \<or> is_listing c) cs2"
    using getDeploymentForModel_new_calls [of w s1 "fst (getModel api (options s))"] g by auto
  have no_inf: "list_all (\<lambda>c. is_auth c \<or> is_listing c) cs \<Longrightarrow> filter is_inference cs = []" for cs
    by (induction cs) (auto elim: is_auth.elims is_listing.elims)
  have au: "list_all (\<lambda>c. is_auth c \<or> is_listing c) cs1"
    using cs1(2) by (induction cs1) auto
  have 1: "fst (createMessage api w s) = []"
    unfolding cm by (simp split: prod.splits sum.splits)
  have 2: "\<exists>e. fst (snd (createMessage api w s)) = Inl e"
    unfolding cm by (simp split: prod.splits sum.splits)
  have "snd (snd (createMessage api w s)) = s1 \<or> snd (snd (createMessage api w s)) = s2"
    unfolding cm using t g by (simp split: prod.splits sum.splits)
  then have 3: "\<exists>cs. calls (snd (snd (createMessage api w s))) = calls s @ cs
            \<and> list_all (\<lambda>c. is_auth c \<or> is_listing c) cs
            \<and> filter is_inference cs = []"
  proof
    assume "snd (snd (createMessage api w s)) = s1"
    with cs1 au no_inf [OF au] show ?thesis by auto
  next
    assume e: "snd (snd (createMessage api w s)) = s2"
    have "list_all (\<lambda>c. is_auth c \<or> is_listing c) (cs1 @ cs2)" using au cs2(2) by simp
    with e cs1 cs2 no_inf [of "cs1 @ cs2"] show ?thesis by auto
  qed
  have 4: "\<forall>bearer s1 d s2.
           getToken w s = (Inr bearer, s1)
         \<and> getDeploymentForModel w s1 (fst (getModel api (options s))) = (Inr d, s2)
         \<longrightarrow> createMessage api w s
               = ([], Inl (UnsupportedModel (fst (getModel api (options s)))), s2)"
    unfolding cm by simp
  show ?thesis by (rule conjI [OF 1 conjI [OF 2 conjI [OF 3 4]]])
qed

lemma createMessage_options: "options (snd (snd (createMessage api w s))) = options s"
  using getToken_keeps [of w s]
    getDeploymentForModel_options [of w "snd (getToken w s)" "fst (getModel api (options s))"]
  by (auto simp add: createMessage_def Let_def request_def split: prod.splits sum.splits option.splits)

lemma createMessage_deployments:
  "deployments (snd (snd (createMessage api w s))) = deployments s
     \<or> deployments (snd (snd (createMessage api w s)))
         = deployments (snd (getDeploymentForModel w (snd (getToken w s))
                               (fst (getModel api (options s)))))"
  using getToken_keeps [of w s]
  by (auto simp add: createMessage_def Let_def request_def split: prod.splits sum.splits option.splits)

lemma reachable_unconfigured:
  assumes "reachable api w opts s" and "sapAiCoreClientSecret opts = Some []"
  shows "options s = opts \<and> (deployments s = None \<or> deployments s = Some [sentinel])"
  using assms
proof (induction rule: reachable.induct)
  case constructed
  then show ?case by (simp add: new_handler_def)
next
  case (ran s)
  then have o: "options s = opts" and d: "deployments s = None \<or> deployments s = Some [sentinel]"
    by auto
  have s1: "sapAiCoreClientSecret (options (snd (getToken w s))) = Some []"
    "deployments (snd (getToken w s)) = None \<or> deployments (snd (getToken w s)) = Some [sentinel]"
    using getToken_keeps [of w s] o d ran.prems by auto
  from getDeploymentForModel_unconfigured [OF s1, of w "fst (getModel api (options s))"]
    createMessage_deployments [of api w s] d createMessage_options [of api w s] o
  show ?case by auto
qed

text \<open>
  C9. With the empty string as client secret, \<^verbatim>\<open>getAiCoreDeployments\<close> returns the one
  sentinel deployment and leaves the instance as it is, with no request issued; then, on
  every instance the host can hold, resolving a model whose base name is not
  \<^verbatim>\<open>ai-core-not-configured\<close> fails with the error of no running deployment.
\<close>

theorem unconfigured_sentinel:
  "sapAiCoreClientSecret opts = Some [] \<longrightarrow>
     (options s0 = opts \<longrightarrow>
        getAiCoreDeployments w s0 = (Inr [sentinel], s0)
      \<and> sentinel = \<lparr>id_d = (js ''notconfigured''), name_d = (js ''ai-core-not-configured'')\<rparr>)
   \<and> (reachable api w opts s \<and> modelBaseName w m \<noteq> (js ''ai-core-not-configured'') \<longrightarrow>
        getDeploymentForModel w s m
          = (Inl (NoRunningDeployment m), s\<lparr>deployments := Some [sentinel]\<rparr>))"
proof (intro impI conjI)
  assume sec: "sapAiCoreClientSecret opts = Some []"
  {
    assume "options s0 = opts"
    with sec show "getAiCoreDeployments w s0 = (Inr [sentinel], s0)"
      by (simp add: getAiCoreDeployments_unconfigured)
  }
  show "sentinel = \<lparr>id_d = (js ''notconfigured''), name_d = (js ''ai-core-not-configured'')\<rparr>"
    by (simp add: sentinel_def)
  assume r: "reachable api w opts s \<and> modelBaseName w m \<noteq> (js ''ai-core-not-configured'')"
  then have inv: "options s = opts" "deployments s = None \<or> deployments s = Some [sentinel]"
    using reachable_unconfigured [of api w opts s] sec by auto
  have base: "deploymentBaseName w sentinel = (js ''ai-core-not-configured'')"
    by (simp add: deploymentBaseName_def sentinel_def toLowerCase_def toLowerCase_unit_def js_def)
  from inv(2) show "getDeploymentForModel w s m
          = (Inl (NoRunningDeployment m), s\<lparr>deployments := Some [sentinel]\<rparr>)"
  proof
    assume "deployments s = None"
    then show ?thesis using r sec inv(1) base
      by (auto simp add: getDeploymentForModel_def getAiCoreDeployments_unconfigured
          find_deployment_def)
  next
    assume "deployments s = Some [sentinel]"
    then show ?thesis using r sec inv(1) base
      by (auto simp add: getDeploymentForModel_def getAiCoreDeployments_unconfigured
          find_deployment_def hasDeploymentForModel_def)
  qed
qed

subsection \<open>The examples, evaluated\<close>

lemmas handler_defs =
  getToken_def authenticate_def request_def date_now_def getAiCoreDeployments_def
  running_deployments_def to_deployment_def backend_model_def truthy_def template_def
  or_else_def getDeploymentForModel_def hasDeploymentForModel_def find_deployment_def
  deploymentBaseName_def modelBaseName_def toLowerCase_def toLowerCase_unit_def js_def
  getModel_def in_sapAiCoreModels_def index_sapAiCoreModels_def Object_prototype_def
  new_handler_def Let_def

lemmas example_defs =
  example_options_def example_response_def example_token_def resource_def
  example_world_def example_api_def unconfigured_options_def example_resources_def

lemma example_getToken:
  "fst (getToken example_world (new_handler example_options)) = Inr (js ''t-new'')
 \<and> tick (snd (getToken example_world (new_handler example_options))) = 2
 \<and> options (snd (getToken example_world (new_handler example_options))) = example_options
 \<and> deployments (snd (getToken example_world (new_handler example_options))) = None
 \<and> calls (snd (getToken example_world (new_handler example_options)))
      = [PostToken (js ''https://auth.example/oauth/token'') (js ''client'') (js ''secret'')]"
  by (simp add: handler_defs example_defs)

lemma example_getAiCoreDeployments:
  "fst (getAiCoreDeployments example_world (new_handler example_options))
     = Inr [\<lparr>id_d = (js ''d1''), name_d = (js ''my-own-model:1'')\<rparr>]"
  by (simp add: handler_defs example_defs)

text \<open>
  C1 as stated fails: on a fresh instance the unsupported-model error comes after the
  authentication request and the deployment-listing request.
\<close>

theorem createMessage_after_requests:
  "fst (getModel example_api (options (new_handler example_options))) = (js ''my-own-model'')
 \<and> (js ''my-own-model'') \<notin> set anthropicModels
 \<and> (js ''my-own-model'') \<notin> set openAIModels
 \<and> fst (snd (createMessage example_api example_world (new_handler example_options)))
      = Inl (UnsupportedModel (js ''my-own-model''))
 \<and> calls (snd (snd (createMessage example_api example_world (new_handler example_options))))
      = [PostToken (js ''https://auth.example/oauth/token'') (js ''client'') (js ''secret''),
         GetDeployments (js ''https://api.example/v2/lm/deployments?$top=10000&$skip=0'')
           (js ''t-new'') (js ''default'')]"
  by (simp add: createMessage_def anthropicModels_def openAIModels_def handler_defs example_defs)

theorem createMessage_unsupported_model_witness:
  "fst (getModel example_api (options (new_handler example_options))) \<notin> set anthropicModels
 \<and> fst (getModel example_api (options (new_handler example_options))) \<notin> set openAIModels
 \<and> fst (createMessage example_api example_world (new_handler example_options)) = []
 \<and> (\<exists>e. fst (snd (createMessage example_api example_world (new_handler example_options))) = Inl e)
 \<and> (\<exists>cs. calls (snd (snd (createMessage example_api example_world (new_handler example_options))))
             = calls (new_handler example_options) @ cs
          \<and> filter is_inference cs = [])"
proof -
  have a: "fst (getModel example_api (options (new_handler example_options))) \<notin> set anthropicModels"
    by (simp add: anthropicModels_def handler_defs example_defs)
  have b: "fst (getModel example_api (options (new_handler example_options))) \<notin> set openAIModels"
    by (simp add: openAIModels_def handler_defs example_defs)
  from createMessage_unsupported_model [OF a b, of example_world] a b
  show ?thesis by blast
qed

lemma example_stale_refresh:
  "fst (getAiCoreDeployments example_world
          ((new_handler example_options)
             \<lparr>deployments := Some [\<lparr>id_d = js ''d7'', name_d = js ''claude-3-5-sonnet:v1''\<rparr>]\<rparr>))
     = Inr [\<lparr>id_d = js ''d1'', name_d = js ''my-own-model:1''\<rparr>]
 \<and> sapAiCoreClientSecret (options ((new_handler example_options)
             \<lparr>deployments := Some [\<lparr>id_d = js ''d7'', name_d = js ''claude-3-5-sonnet:v1''\<rparr>]\<rparr>))
     \<noteq> Some []
 \<and> (\<exists>b. fst (getToken example_world ((new_handler example_options)
             \<lparr>deployments := Some [\<lparr>id_d = js ''d7'', name_d = js ''claude-3-5-sonnet:v1''\<rparr>]\<rparr>))
          = Inr b)"
  by (simp add: handler_defs example_defs)

lemma example_spec_matches:
  "spec_matches example_world (js ''my-own-model:1'') (js ''My-Own-Model:2'')"
  "\<not> spec_matches example_world (js ''my-own-model:1'') (js ''gpt-4'')"
  "\<not> spec_matches example_world (js ''claude-3-5-sonnet:v1'') (js ''gpt-4'')"
  "\<not> spec_matches example_world (js ''claude-3-5-sonnet:v1'') (js ''My-Own-Model:2'')"
  "spec_matches example_world (js ''mod'' @ [232] @ js ''le:1'') (js ''MOD'' @ [200] @ js ''LE'')"
  by (simp_all add: spec_matches_def toLowerCase_def toLowerCase_unit_def js_def)

theorem getDeploymentForModel_resolution_witness:
  "getDeploymentForModel example_world
       ((new_handler example_options)
          \<lparr>deployments := Some [\<lparr>id_d = js ''d7'', name_d = js ''claude-3-5-sonnet:v1''\<rparr>]\<rparr>)
       (js ''claude-3-5-sonnet:20241022'')
     = (Inr (js ''d7''), (new_handler example_options)
          \<lparr>deployments := Some [\<lparr>id_d = js ''d7'', name_d = js ''claude-3-5-sonnet:v1''\<rparr>]\<rparr>)
 \<and> getDeploymentForModel example_world
       ((new_handler example_options)
          \<lparr>deployments := Some [\<lparr>id_d = js ''d9'', name_d = js ''mod'' @ [232] @ js ''le:1''\<rparr>]\<rparr>)
       (js ''MOD'' @ [200] @ js ''LE'')
     = (Inr (js ''d9''), (new_handler example_options)
          \<lparr>deployments := Some [\<lparr>id_d = js ''d9'', name_d = js ''mod'' @ [232] @ js ''le:1''\<rparr>]\<rparr>)
 \<and> deployments (new_handler example_options) = None
 \<and> fst (getDeploymentForModel example_world (new_handler example_options) (js ''My-Own-Model:2''))
     = Inr (js ''d1'')
 \<and> fst (getDeploymentForModel example_world
       ((new_handler example_options)
          \<lparr>deployments := Some [\<lparr>id_d = js ''d7'', name_d = js ''claude-3-5-sonnet:v1''\<rparr>]\<rparr>)
       (js ''My-Own-Model:2''))
     = Inr (js ''d1'')
 \<and> fst (getDeploymentForModel example_world
       ((new_handler example_options)
          \<lparr>deployments := Some [\<lparr>id_d = js ''d7'', name_d = js ''claude-3-5-sonnet:v1''\<rparr>]\<rparr>)
       (js ''gpt-4''))
     = Inl (NoRunningDeployment (js ''gpt-4''))
 \<and> deployments (snd (getDeploymentForModel example_world
       ((new_handler example_options)
          \<lparr>deployments := Some [\<lparr>id_d = js ''d7'', name_d = js ''claude-3-5-sonnet:v1''\<rparr>]\<rparr>)
       (js ''gpt-4'')))
     = Some [\<lparr>id_d = js ''d1'', name_d = js ''my-own-model:1''\<rparr>]
 \<and> (\<exists>cs. calls (snd (getDeploymentForModel example_world
       ((new_handler example_options)
          \<lparr>deployments := Some [\<lparr>id_d = js ''d7'', name_d = js ''claude-3-5-sonnet:v1''\<rparr>]\<rparr>)
       (js ''gpt-4'')))
            = calls ((new_handler example_options)
          \<lparr>deployments := Some [\<lparr>id_d = js ''d7'', name_d = js ''claude-3-5-sonnet:v1''\<rparr>]\<rparr>) @ cs
          \<and> length (filter is_listing cs) = 1)"
proof -
  let ?d7 = "\<lparr>id_d = js ''d7'', name_d = js ''claude-3-5-sonnet:v1''\<rparr>"
  let ?d9 = "\<lparr>id_d = js ''d9'', name_d = js ''mod'' @ [232] @ js ''le:1''\<rparr>"
  let ?d1 = "\<lparr>id_d = js ''d1'', name_d = js ''my-own-model:1''\<rparr>"
  let ?hit = "(new_handler example_options)\<lparr>deployments := Some [?d7]\<rparr>"
  let ?latin = "(new_handler example_options)\<lparr>deployments := Some [?d9]\<rparr>"
  let ?new = "new_handler example_options"
  have h: "deployments ?hit = Some [?d7]" by simp
  have l: "deployments ?latin = Some ([] @ ?d9 # []) \<and> spec_matches example_world (name_d ?d9)
             (js ''MOD'' @ [200] @ js ''LE'')
           \<and> (\<forall>d\<in>set []. \<not> spec_matches example_world (name_d d) (js ''MOD'' @ [200] @ js ''LE''))"
    using example_spec_matches(5) by simp
  have n: "deployments ?new = None" by (simp add: new_handler_def)
  have stale_own: "\<exists>ds. deployments ?hit = Some ds
                     \<and> (\<forall>d\<in>set ds. \<not> spec_matches example_world (name_d d) (js ''My-Own-Model:2''))"
    using example_spec_matches(4) by simp
  have stale_gpt: "\<exists>ds. deployments ?hit = Some ds
                     \<and> (\<forall>d\<in>set ds. \<not> spec_matches example_world (name_d d) (js ''gpt-4''))"
    using example_spec_matches(3) by simp
  obtain s1 where f: "getAiCoreDeployments example_world ?new = (Inr [?d1], s1)"
    using example_getAiCoreDeployments
    by (cases "getAiCoreDeployments example_world ?new") auto
  obtain s2 where g: "getAiCoreDeployments example_world ?hit = (Inr [?d1], s2)"
    using example_stale_refresh
    by (cases "getAiCoreDeployments example_world ?hit") auto
  have own: "[?d1] = [] @ ?d1 # [] \<and> spec_matches example_world (name_d ?d1) (js ''My-Own-Model:2'')
               \<and> (\<forall>d\<in>set []. \<not> spec_matches example_world (name_d d) (js ''My-Own-Model:2''))"
    using example_spec_matches(1) by simp
  have none: "\<forall>d\<in>set [?d1]. \<not> spec_matches example_world (name_d d) (js ''gpt-4'')"
    using example_spec_matches(2) by simp
  have sec: "sapAiCoreClientSecret (options ?hit) \<noteq> Some []
               \<and> (\<exists>b. fst (getToken example_world ?hit) = Inr b)"
    using example_stale_refresh by blast
  note hit = getDeploymentForModel_resolution
         [where s = ?hit and w = example_world and i = "js ''d7''",
          THEN conjunct2, THEN conjunct1, rule_format, OF h]
  note latin = getDeploymentForModel_resolution
         [where s = ?latin and w = example_world and m = "js ''MOD'' @ [200] @ js ''LE''"
            and pre = "[]" and ?d0.0 = ?d9 and post = "[]",
          THEN conjunct1, rule_format, OF l]
  note fresh = getDeploymentForModel_resolution
         [where s = ?new and w = example_world and m = "js ''My-Own-Model:2''",
          THEN conjunct2, THEN conjunct2, rule_format, OF disjI1, OF n, THEN conjunct2]
  note stale1 = getDeploymentForModel_resolution
         [where s = ?hit and w = example_world and m = "js ''My-Own-Model:2''",
          THEN conjunct2, THEN conjunct2, rule_format, OF disjI2, OF stale_own, THEN conjunct2]
  note stale2 = getDeploymentForModel_resolution
         [where s = ?hit and w = example_world and m = "js ''gpt-4''",
          THEN conjunct2, THEN conjunct2, rule_format, OF disjI2, OF stale_gpt]
  have A: "getDeploymentForModel example_world ?hit (js ''claude-3-5-sonnet:20241022'')
             = (Inr (js ''d7''), ?hit)"
    by (rule hit)
  have L: "getDeploymentForModel example_world ?latin (js ''MOD'' @ [200] @ js ''LE'')
             = (Inr (js ''d9''), ?latin)"
    using latin by simp
  have B: "fst (getDeploymentForModel example_world ?new (js ''My-Own-Model:2'')) = Inr (js ''d1'')"
  proof -
    from fresh have "\<forall>pre1 d1 post1.
        [?d1] = pre1 @ d1 # post1 \<and> spec_matches example_world (name_d d1) (js ''My-Own-Model:2'')
          \<and> (\<forall>d\<in>set pre1. \<not> spec_matches example_world (name_d d) (js ''My-Own-Model:2''))
        \<longrightarrow> fst (getDeploymentForModel example_world ?new (js ''My-Own-Model:2''))
              = Inr (id_d d1)"
      unfolding f by simp
    from this [rule_format, OF own] show ?thesis by simp
  qed
  have B2: "fst (getDeploymentForModel example_world ?hit (js ''My-Own-Model:2'')) = Inr (js ''d1'')"
  proof -
    from stale1 have "\<forall>pre1 d1 post1.
        [?d1] = pre1 @ d1 # post1 \<and> spec_matches example_world (name_d d1) (js ''My-Own-Model:2'')
          \<and> (\<forall>d\<in>set pre1. \<not> spec_matches example_world (name_d d) (js ''My-Own-Model:2''))
        \<longrightarrow> fst (getDeploymentForModel example_world ?hit (js ''My-Own-Model:2''))
              = Inr (id_d d1)"
      unfolding g by simp
    from this [rule_format, OF own] show ?thesis by simp
  qed
  have C1: "fst (getDeploymentForModel example_world ?hit (js ''gpt-4''))
             = Inl (NoRunningDeployment (js ''gpt-4''))"
  proof -
    from stale2 [THEN conjunct2] have "(\<forall>d\<in>set [?d1]. \<not> spec_matches example_world (name_d d) (js ''gpt-4''))
        \<longrightarrow> fst (getDeploymentForModel example_world ?hit (js ''gpt-4''))
              = Inl (NoRunningDeployment (js ''gpt-4''))"
      unfolding g by simp
    with none show ?thesis by blast
  qed
  have C2: "deployments (snd (getDeploymentForModel example_world ?hit (js ''gpt-4'')))
             = Some [?d1]"
    using stale2 [THEN conjunct2] unfolding g by simp
  have C3: "\<exists>cs. calls (snd (getDeploymentForModel example_world ?hit (js ''gpt-4'')))
                   = calls ?hit @ cs
                \<and> length (filter is_listing cs) = 1"
    using stale2 [THEN conjunct1] sec by blast
  from A L n B B2 C1 C2 C3 show ?thesis by blast
qed

text \<open>
  C4 as stated fails: a running entry whose model details include a name and a version is
  left out when the name is the empty string.
\<close>

theorem running_deployments_skips_empty_name:
  "targetStatus (resource (js ''d0'') (js ''RUNNING'') (Some []) (Some (js ''1''))) = (js ''RUNNING'')
 \<and> backend_model (resource (js ''d0'') (js ''RUNNING'') (Some []) (Some (js ''1'')))
     = Some \<lparr>name_m = Some [], version_m = Some (js ''1'')\<rparr>
 \<and> running_deployments [resource (js ''d0'') (js ''RUNNING'') (Some []) (Some (js ''1''))] = []"
  by (simp add: handler_defs example_defs)

theorem running_deployments_exactly_witness:
  "map (\<lambda>r. \<lparr>id_d = id_r r,
                name_d = the (name_m (the (backend_model r))) @ (js '':'')
                         @ the (version_m (the (backend_model r)))\<rparr>)
       (filter (\<lambda>r. targetStatus r = (js ''RUNNING'')
                    \<and> (\<exists>m n v. backend_model r = Some m \<and> name_m m = Some n \<and> n \<noteq> []
                          \<and> version_m m = Some v \<and> v \<noteq> [])) example_resources)
     = [\<lparr>id_d = (js ''d1''), name_d = (js ''gpt-4o:2024-05-13'')\<rparr>,
        \<lparr>id_d = (js ''d6''), name_d = (js ''anthropic--claude-3-haiku:1'')\<rparr>]
 \<and> sapAiCoreClientSecret (options (new_handler example_options)) \<noteq> Some []
 \<and> list_reply example_world (tick (snd (getToken example_world (new_handler example_options))))
     = Inr [resource (js ''d1'') (js ''RUNNING'') (Some (js ''my-own-model'')) (Some (js ''1''))]
 \<and> fst (getAiCoreDeployments example_world (new_handler example_options))
     = Inr (running_deployments [resource (js ''d1'') (js ''RUNNING'') (Some (js ''my-own-model'')) (Some (js ''1''))])"
proof -
  let ?new = "new_handler example_options"
  have e: "running_deployments example_resources
             = [\<lparr>id_d = (js ''d1''), name_d = (js ''gpt-4o:2024-05-13'')\<rparr>,
                \<lparr>id_d = (js ''d6''), name_d = (js ''anthropic--claude-3-haiku:1'')\<rparr>]"
    by (simp add: handler_defs example_defs)
  have s: "sapAiCoreClientSecret (options ?new) \<noteq> Some []"
    by (simp add: new_handler_def example_options_def)
  have t: "getToken example_world ?new = (Inr (js ''t-new''), snd (getToken example_world ?new))"
    using example_getToken by (simp add: prod_eq_iff)
  have l: "list_reply example_world (tick (snd (getToken example_world ?new)))
             = Inr [resource (js ''d1'') (js ''RUNNING'') (Some (js ''my-own-model'')) (Some (js ''1''))]"
    by (simp add: example_world_def)
  note r1 = running_deployments_exactly
               [where rs = example_resources]
  note r2 = running_deployments_exactly
               [where rs = "[resource (js ''d1'') (js ''RUNNING'') (Some (js ''my-own-model'')) (Some (js ''1''))]"
                  and s = ?new and w = example_world and bearer = "(js ''t-new'')"
                  and ?s1.0 = "snd (getToken example_world ?new)"]
  from r1 have 1: "running_deployments example_resources =
     map (\<lambda>r. \<lparr>id_d = id_r r,
                name_d = the (name_m (the (backend_model r))) @ (js '':'')
                         @ the (version_m (the (backend_model r)))\<rparr>)
       (filter (\<lambda>r. targetStatus r = (js ''RUNNING'')
                    \<and> (\<exists>m n v. backend_model r = Some m \<and> name_m m = Some n \<and> n \<noteq> []
                          \<and> version_m m = Some v \<and> v \<noteq> [])) example_resources)"
    by (rule conjunct1)
  from r2 s t l have 2: "fst (getAiCoreDeployments example_world ?new)
     = Inr (running_deployments [resource (js ''d1'') (js ''RUNNING'') (Some (js ''my-own-model'')) (Some (js ''1''))])"
    by blast
  from 1 [symmetric] e have 3: "map (\<lambda>r. \<lparr>id_d = id_r r,
                name_d = the (name_m (the (backend_model r))) @ (js '':'')
                         @ the (version_m (the (backend_model r)))\<rparr>)
       (filter (\<lambda>r. targetStatus r = (js ''RUNNING'')
                    \<and> (\<exists>m n v. backend_model r = Some m \<and> name_m m = Some n \<and> n \<noteq> []
                          \<and> version_m m = Some v \<and> v \<noteq> [])) example_resources)
     = [\<lparr>id_d = (js ''d1''), name_d = (js ''gpt-4o:2024-05-13'')\<rparr>,
        \<lparr>id_d = (js ''d6''), name_d = (js ''anthropic--claude-3-haiku:1'')\<rparr>]"
    by (rule trans)
  from 3 s l 2 show ?thesis by blast
qed

theorem unconfigured_sentinel_witness:
  "sapAiCoreClientSecret unconfigured_options = Some []
 \<and> reachable example_api example_world unconfigured_options (new_handler unconfigured_options)
 \<and> modelBaseName example_world (js ''gpt-4o'') \<noteq> (js ''ai-core-not-configured'')
 \<and> getAiCoreDeployments example_world (new_handler unconfigured_options)
     = (Inr [sentinel], new_handler unconfigured_options)
 \<and> getDeploymentForModel example_world (new_handler unconfigured_options) (js ''gpt-4o'')
     = (Inl (NoRunningDeployment (js ''gpt-4o'')),
        (new_handler unconfigured_options)\<lparr>deployments := Some [sentinel]\<rparr>)"
proof -
  have a: "sapAiCoreClientSecret unconfigured_options = Some []"
    by (simp add: unconfigured_options_def)
  have b: "reachable example_api example_world unconfigured_options
             (new_handler unconfigured_options)"
    by (rule reachable.constructed)
  have c: "modelBaseName example_world (js ''gpt-4o'') \<noteq> (js ''ai-core-not-configured'')"
    by (simp add: handler_defs)
  have d: "options (new_handler unconfigured_options) = unconfigured_options"
    by (simp add: new_handler_def)
  from unconfigured_sentinel
         [where opts = unconfigured_options and ?s0.0 = "new_handler unconfigured_options"
            and w = example_world and api = example_api
            and s = "new_handler unconfigured_options" and m = "(js ''gpt-4o'')"]
    a b c d
  show ?thesis by blast
qed

text \<open>
  C10 fails on the code. \<^verbatim>\<open>getModel\<close> has no failing branch, and it returns the default
  identifier when \<^verbatim>\<open>apiModelId\<close> is unset; but the test is \<^verbatim>\<open>in\<close>, which also finds the
  names the registry inherits: for \<^verbatim>\<open>apiModelId\<close> \<^verbatim>\<open>toString\<close>, which is not a key of the
  registry, it returns that identifier with the inherited value, not the default with its
  metadata, and \<^verbatim>\<open>createMessage\<close> goes on with it.
\<close>

theorem getModel_inherited_name:
  "apiModelId (example_options\<lparr>apiModelId := Some (js ''toString'')\<rparr>) = Some (js ''toString'')
 \<and> sapAiCoreModels example_api (js ''toString'') = None
 \<and> sapAiCoreDefaultModelId example_api = js ''gpt-4o''
 \<and> getModel example_api (example_options\<lparr>apiModelId := Some (js ''toString'')\<rparr>)
     = (js ''toString'', Inherited)
 \<and> fst (snd (createMessage example_api example_world
       (new_handler (example_options\<lparr>apiModelId := Some (js ''toString'')\<rparr>))))
     = Inl (NoRunningDeployment (js ''toString''))"
  by (simp add: createMessage_def anthropicModels_def openAIModels_def handler_defs example_defs)

subsection \<open>The stream parsers\<close>

lemma split_append_sep: "sep \<notin> set a \<Longrightarrow> split sep (a @ sep # b) = a # split sep b"
  by (induction a) (auto split: list.splits)

lemma lines_of_Nil: "lines_of [] = []"
  by (simp add: lines_of_def)

lemma lines_of_line:
  "10 \<notin> set a \<Longrightarrow> a \<noteq> [] \<Longrightarrow> lines_of (a @ 10 # b) = a # lines_of b"
  by (simp add: lines_of_def split_append_sep)

lemma lines_of_frame_line:
  "10 \<notin> set text \<Longrightarrow> lines_of (frame_line text @ b) = ((js ''data: '') @ text) # lines_of b"
  using lines_of_line [of "(js ''data: '') @ text" b] by (simp add: frame_line_def js_def)

lemma streamCompletion_line_data:
  "streamCompletion_line parse u ((js ''data: '') @ text)
     = (case streamCompletion_data u (parse text) of (evs, u1, thrown) \<Rightarrow> (evs, u1))"
  by (simp add: streamCompletion_line_def startsWith_def slice_def)

lemma streamCompletionGPT_line_data:
  "streamCompletionGPT_line parse v ((js ''data: '') @ text)
     = (case streamCompletionGPT_data v (parse text) of (evs, v1, thrown) \<Rightarrow> (evs, v1))"
  by (simp add: streamCompletionGPT_line_def startsWith_def slice_def)

text \<open>
  C5. Fed the frames \<^verbatim>\<open>message_start\<close> with \<^verbatim>\<open>input_tokens\<close> 10, \<^verbatim>\<open>content_block_delta\<close>
  with a text delta \<^verbatim>\<open>hi\<close>, and \<^verbatim>\<open>message_delta\<close> with usage \<^verbatim>\<open>output_tokens\<close> 3, one
  per chunk or all in one chunk, the Anthropic-format parser yields exactly the usage event
  (10, 0), the text event \<^verbatim>\<open>hi\<close> and the usage event (0, 3), in this order, and ends
  normally.
\<close>

theorem streamCompletion_example:
  assumes "parse j1 = JsonValue d1" and "type_j d1 = Some (js ''message_start'')"
    and "message d1 = Some m" and "usage_m m = Some mu" and "input_tokens mu = Some 10"
    and "parse j2 = JsonValue d2" and "type_j d2 = Some (js ''content_block_delta'')"
    and "delta d2 = Some b" and "type_c b = Some (js ''text_delta'')" and "text_c b = Some (js ''hi'')"
    and "parse j3 = JsonValue d3" and "type_j d3 = Some (js ''message_delta'')"
    and "usage d3 = Some du" and "output_tokens du = Some 3"
    and "10 \<notin> set (j1 @ j2 @ j3)"
  shows "streamCompletion parse
           \<lparr>chunks = [frame_line j1, frame_line j2, frame_line j3], broken = None\<rparr>
         = ([Usage (Some 10) (Some 0), Text (js ''hi''), Usage (Some 0) (Some 3)], None)
       \<and> streamCompletion parse
           \<lparr>chunks = [frame_line j1 @ frame_line j2 @ frame_line j3], broken = None\<rparr>
         = ([Usage (Some 10) (Some 0), Text (js ''hi''), Usage (Some 0) (Some 3)], None)"
proof -
  have nl: "10 \<notin> set j1" "10 \<notin> set j2" "10 \<notin> set j3"
    using assms(15) by auto
  have l: "lines_of (frame_line j1) = [(js ''data: '') @ j1]" "lines_of (frame_line j2) = [(js ''data: '') @ j2]"
    "lines_of (frame_line j3) = [(js ''data: '') @ j3]"
    using nl lines_of_frame_line [of _ "[]"] by (simp_all add: lines_of_Nil)
  have l3: "lines_of (frame_line j1 @ frame_line j2 @ frame_line j3)
              = [(js ''data: '') @ j1, (js ''data: '') @ j2, (js ''data: '') @ j3]"
    using nl l by (simp add: lines_of_frame_line)
  have f1: "streamCompletion_line parse u ((js ''data: '') @ j1)
              = ([Usage (Some 10) (output_tokens_v u)], u\<lparr>input_tokens_v := Some 10\<rparr>)" for u
    unfolding streamCompletion_line_data using assms(1-5)
    by (simp add: streamCompletion_data_def)
  have f2: "streamCompletion_line parse u ((js ''data: '') @ j2) = ([Text (js ''hi'')], u)" for u
    unfolding streamCompletion_line_data using assms(6-10)
    by (simp add: streamCompletion_data_def or_else_def)
  have f3: "streamCompletion_line parse u ((js ''data: '') @ j3)
              = ([Usage (Some 0) (Some 3)], u\<lparr>output_tokens_v := Some 3\<rparr>)" for u
    unfolding streamCompletion_line_data using assms(11-14)
    by (simp add: streamCompletion_data_def)
  show ?thesis
    unfolding streamCompletion_def
    by (simp add: l l3 f1 f2 f3 del: append.simps)
qed

lemma streamCompletion_lines_append:
  "streamCompletion_lines parse u (xs @ ys) =
     (case streamCompletion_lines parse u xs of
        (evs, u1) \<Rightarrow>
          (case streamCompletion_lines parse u1 ys of
             (evs2, u2) \<Rightarrow> (evs @ evs2, u2)))"
  by (induction xs arbitrary: u) (auto split: prod.splits)

lemma streamCompletion_chunks_lines:
  assumes "\<And>u. streamCompletion_lines parse u (lines_of c)
                = streamCompletion_lines parse u (lines_of c')"
  shows "streamCompletion_chunks parse u (pre @ c # post)
           = streamCompletion_chunks parse u (pre @ c' # post)"
  using assms by (induction pre arbitrary: u) (auto split: prod.splits)

lemma streamCompletionGPT_lines_append:
  "streamCompletionGPT_lines parse v (xs @ ys) =
     (case streamCompletionGPT_lines parse v xs of
        (evs, v1, returned) \<Rightarrow>
          if returned then (evs, v1, True)
          else (case streamCompletionGPT_lines parse v1 ys of
                  (evs2, v2, returned2) \<Rightarrow> (evs @ evs2, v2, returned2)))"
  by (induction xs arbitrary: v) (auto split: prod.splits)

lemma streamCompletionGPT_chunks_lines:
  assumes "\<And>v. streamCompletionGPT_lines parse v (lines_of c)
                = streamCompletionGPT_lines parse v (lines_of c')"
  shows "streamCompletionGPT_chunks parse v (pre @ c # post)
           = streamCompletionGPT_chunks parse v (pre @ c' # post)"
  using assms by (induction pre arbitrary: v) (auto split: prod.splits)

lemma streamCompletion_line_invalid:
  "startsWith bad (js ''data: '') \<Longrightarrow> parse (slice bad 6) = Invalid \<Longrightarrow>
     streamCompletion_line parse u bad = ([], u)"
  by (simp add: streamCompletion_line_def streamCompletion_data_def)

lemma streamCompletionGPT_line_invalid:
  "startsWith bad (js ''data: '') \<Longrightarrow> parse (slice bad 6) = Invalid \<Longrightarrow>
     streamCompletionGPT_line parse v bad = ([], v)"
  by (simp add: streamCompletionGPT_line_def streamCompletionGPT_data_def)

lemma streamCompletion_lines_skip:
  assumes "startsWith bad (js ''data: '')" and "parse (slice bad 6) = Invalid"
  shows "streamCompletion_lines parse u (xs @ bad # ys) = streamCompletion_lines parse u (xs @ ys)"
  unfolding streamCompletion_lines_append
  by (simp add: streamCompletion_line_invalid [where parse = parse and bad = bad, OF assms] split: prod.splits)

lemma streamCompletionGPT_lines_skip:
  assumes "startsWith bad (js ''data: '')" and "parse (slice bad 6) = Invalid"
    and "trim bad \<noteq> (js ''data: [DONE]'')"
  shows "streamCompletionGPT_lines parse v (xs @ bad # ys)
           = streamCompletionGPT_lines parse v (xs @ ys)"
  unfolding streamCompletionGPT_lines_append
  using assms(3) by (simp add: streamCompletionGPT_line_invalid [where parse = parse and bad = bad, OF assms(1,2)] split: prod.splits)

text \<open>
  C7 (amended). A line that starts with \<^verbatim>\<open>data: \<close> and whose remainder \<^verbatim>\<open>JSON.parse\<close>
  rejects yields no event and changes no variable of the Anthropic-format parser, so the
  events and the end of the stream are those of the stream without the line; the same holds
  of the OpenAI-format parser for every such line that does not trim to the sentinel
  \<^verbatim>\<open>data: [DONE]\<close>.
\<close>

theorem malformed_frame_skipped:
  assumes "startsWith bad (js ''data: '')" and "parse (slice bad 6) = Invalid"
    and "lines_of c = xs @ bad # ys" and "lines_of c' = xs @ ys"
  shows "streamCompletion_line parse u bad = ([], u)
       \<and> streamCompletion_lines parse u (xs @ bad # ys) = streamCompletion_lines parse u (xs @ ys)
       \<and> streamCompletion parse \<lparr>chunks = pre @ c # post, broken = b\<rparr>
           = streamCompletion parse \<lparr>chunks = pre @ c' # post, broken = b\<rparr>
       \<and> (trim bad \<noteq> (js ''data: [DONE]'') \<longrightarrow>
             streamCompletionGPT_line parse v bad = ([], v)
           \<and> streamCompletionGPT_lines parse v (xs @ bad # ys)
               = streamCompletionGPT_lines parse v (xs @ ys)
           \<and> streamCompletionGPT parse \<lparr>chunks = pre @ c # post, broken = b\<rparr>
               = streamCompletionGPT parse \<lparr>chunks = pre @ c' # post, broken = b\<rparr>)"
proof -
  note inv = assms(1,2)
  have 1: "streamCompletion_line parse u bad = ([], u)"
    by (rule streamCompletion_line_invalid [where parse = parse and bad = bad, OF inv])
  have 2: "streamCompletion_lines parse u (xs @ bad # ys)
             = streamCompletion_lines parse u (xs @ ys)" for u
    by (rule streamCompletion_lines_skip [where parse = parse and bad = bad, OF inv])
  have "streamCompletion_chunks parse u0 (pre @ c # post)
          = streamCompletion_chunks parse u0 (pre @ c' # post)" for u0
    by (rule streamCompletion_chunks_lines) (simp add: assms(3,4) 2)
  then have 3: "streamCompletion parse \<lparr>chunks = pre @ c # post, broken = b\<rparr>
           = streamCompletion parse \<lparr>chunks = pre @ c' # post, broken = b\<rparr>"
    by (simp add: streamCompletion_def split: prod.splits)
  have 4: "trim bad \<noteq> (js ''data: [DONE]'') \<longrightarrow>
             streamCompletionGPT_line parse v bad = ([], v)
           \<and> streamCompletionGPT_lines parse v (xs @ bad # ys)
               = streamCompletionGPT_lines parse v (xs @ ys)
           \<and> streamCompletionGPT parse \<lparr>chunks = pre @ c # post, broken = b\<rparr>
               = streamCompletionGPT parse \<lparr>chunks = pre @ c' # post, broken = b\<rparr>"
  proof
    assume nd: "trim bad \<noteq> (js ''data: [DONE]'')"
    have g2: "streamCompletionGPT_lines parse v (xs @ bad # ys)
                = streamCompletionGPT_lines parse v (xs @ ys)" for v
      by (rule streamCompletionGPT_lines_skip [where parse = parse and bad = bad, OF inv nd])
    have "streamCompletionGPT_chunks parse v0 (pre @ c # post)
            = streamCompletionGPT_chunks parse v0 (pre @ c' # post)" for v0
      by (rule streamCompletionGPT_chunks_lines) (simp add: assms(3,4) g2)
    then have g3: "streamCompletionGPT parse \<lparr>chunks = pre @ c # post, broken = b\<rparr>
               = streamCompletionGPT parse \<lparr>chunks = pre @ c' # post, broken = b\<rparr>"
      by (simp add: streamCompletionGPT_def split: prod.splits)
    from streamCompletionGPT_line_invalid [where parse = parse and bad = bad, OF inv] g2 g3
    show "streamCompletionGPT_line parse v bad = ([], v)
           \<and> streamCompletionGPT_lines parse v (xs @ bad # ys)
               = streamCompletionGPT_lines parse v (xs @ ys)
           \<and> streamCompletionGPT parse \<lparr>chunks = pre @ c # post, broken = b\<rparr>
               = streamCompletionGPT parse \<lparr>chunks = pre @ c' # post, broken = b\<rparr>"
      by simp
  qed
  show ?thesis by (rule conjI [OF 1 conjI [OF 2 conjI [OF 3 4]]])
qed


lemma streamCompletionGPT_chunks_concat:
  "streamCompletionGPT_chunks parse v cs
     = streamCompletionGPT_lines parse v (concat (map lines_of cs))"
  by (induction cs arbitrary: v) (auto simp add: streamCompletionGPT_lines_append split: prod.splits)

lemma gpt_choices_text:
  "choices d = Some (Some c # rest) \<Longrightarrow> delta_c c = Some dl \<Longrightarrow> content dl = Some t \<Longrightarrow> t \<noteq> []
     \<Longrightarrow> gpt_choices v d = ([Text t], v\<lparr>currentContent := currentContent v @ t\<rparr>, None)"
  by (simp add: gpt_choices_def truthy_def)

lemma gpt_choices_none:
  "\<forall>rest. choices d \<noteq> Some (None # rest) \<Longrightarrow>
   \<not> (\<exists>c rest dl t. choices d = Some (Some c # rest) \<and> delta_c c = Some dl
         \<and> content dl = Some t \<and> t \<noteq> [])
     \<Longrightarrow> gpt_choices v d = ([], v, None)"
  by (auto simp add: gpt_choices_def truthy_def split: option.splits list.splits)

lemma gpt_usage_some:
  "usage d = Some u \<Longrightarrow>
     gpt_usage v d =
       ([Usage (Some (num_or (prompt_tokens u) (inputTokens v)))
               (Some (num_or (completion_tokens u) (outputTokens v)))],
        v\<lparr>inputTokens := num_or (prompt_tokens u) (inputTokens v),
          outputTokens := num_or (completion_tokens u) (outputTokens v)\<rparr>)"
  by (simp add: gpt_usage_def usage_event_def Let_def)

lemma gpt_usage_none: "usage d = None \<Longrightarrow> gpt_usage v d = ([], v)"
  by (simp add: gpt_usage_def)

lemma gpt_finish_events:
  "fst (gpt_finish v d) =
     (if usage d = None
         \<and> (\<exists>c rest. choices d = Some (Some c # rest) \<and> finish_reason c = Some (js ''stop''))
      then [Usage (Some (inputTokens v)) (Some (outputTokens v))] else [])"
  by (auto simp add: gpt_finish_def usage_event_def split: option.splits list.splits)

lemma gpt_choices_not_null:
  "\<forall>rest. choices d \<noteq> Some (None # rest) \<Longrightarrow> snd (snd (gpt_choices v d)) = None"
  by (auto simp add: gpt_choices_def split: option.splits list.splits)

lemma streamCompletionGPT_line_value:
  "startsWith line (js ''data: '') \<Longrightarrow> parse (slice line 6) = JsonValue d \<Longrightarrow>
   \<forall>rest. choices d \<noteq> Some (None # rest) \<Longrightarrow>
     streamCompletionGPT_line parse v line =
       (fst (gpt_choices v d) @ fst (gpt_usage (fst (snd (gpt_choices v d))) d)
          @ fst (gpt_finish (snd (gpt_usage (fst (snd (gpt_choices v d))) d)) d),
        snd (gpt_usage (fst (snd (gpt_choices v d))) d))"
  using gpt_choices_not_null [of d v]
  by (cases "gpt_choices v d")
     (auto simp add: streamCompletionGPT_line_def streamCompletionGPT_data_def split: prod.splits)

lemma streamCompletionGPT_at_line:
  assumes "streamCompletionGPT_lines parse v0 (concat (map lines_of pre) @ xs) = (before, v, False)"
    and "lines_of c = xs @ line # ys"
    and "trim line \<noteq> js ''data: [DONE]''"
    and "streamCompletionGPT_line parse v line = (evs, v1)"
  shows "fst (streamCompletionGPT_chunks parse v0 (pre @ c # post))
           = before @ evs @ fst (streamCompletionGPT_lines parse v1 (ys @ concat (map lines_of post)))"
proof -
  let ?A = "concat (map lines_of pre) @ xs"
  let ?R = "ys @ concat (map lines_of post)"
  have split_lines: "concat (map lines_of (pre @ c # post)) = ?A @ line # ?R"
    using assms(2) by simp
  obtain evs2 v2 r2 where rest: "streamCompletionGPT_lines parse v1 ?R = (evs2, v2, r2)"
    by (cases "streamCompletionGPT_lines parse v1 ?R")
  have at: "streamCompletionGPT_lines parse v (line # ?R) = (evs @ evs2, v2, r2)"
    using assms(3,4) rest by simp
  have "streamCompletionGPT_lines parse v0 (?A @ line # ?R) = (before @ evs @ evs2, v2, r2)"
    unfolding streamCompletionGPT_lines_append [of parse v0 ?A "line # ?R"] assms(1)
    by (simp add: at del: streamCompletionGPT_lines.simps)
  then show ?thesis
    unfolding streamCompletionGPT_chunks_concat split_lines rest by simp
qed

text \<open>
  C8 (amended). For a frame the OpenAI-format parser processes, whose first choice is not
  \<^verbatim>\<open>null\<close>, the events of the stream are those before the frame, then the frame's, then
  those of the rest, and the frame's events are these: a text event is among them exactly
  when the first choice's delta content is a non-empty string, and then it is the one text
  event and carries that content; with a usage object there is exactly one usage event,
  whose counts are the object's, each absent (or zero) field replaced by the total seen
  before; without a usage object there is one usage event with the totals seen before when
  the first choice's \<^verbatim>\<open>finish_reason\<close> is \<^verbatim>\<open>stop\<close>, and no usage event otherwise.
\<close>

theorem streamCompletionGPT_frame:
  assumes "streamCompletionGPT_lines parse
             \<lparr>currentContent = [], inputTokens = 0, outputTokens = 0\<rparr>
             (concat (map lines_of pre) @ xs) = (before, v, False)"
    and "lines_of c = xs @ line # ys"
    and "trim line \<noteq> js ''data: [DONE]''"
    and "startsWith line (js ''data: '')" and "parse (slice line 6) = JsonValue d"
    and "\<forall>rest. choices d \<noteq> Some (None # rest)"
    and "streamCompletionGPT_line parse v line = (evs, v1)"
  shows "fst (streamCompletionGPT parse \<lparr>chunks = pre @ c # post, broken = b\<rparr>)
           = before @ evs
               @ fst (streamCompletionGPT_lines parse v1 (ys @ concat (map lines_of post)))
       \<and> ((\<exists>t. Text t \<in> set evs) \<longleftrightarrow>
            (\<exists>c rest dl t. choices d = Some (Some c # rest) \<and> delta_c c = Some dl
                \<and> content dl = Some t \<and> t \<noteq> []))
       \<and> (\<forall>c rest dl t. choices d = Some (Some c # rest) \<and> delta_c c = Some dl
              \<and> content dl = Some t \<and> t \<noteq> [] \<longrightarrow> filter is_text evs = [Text t])
       \<and> (\<forall>u. usage d = Some u \<longrightarrow>
             filter is_usage evs = [Usage (Some (inputTokens v1)) (Some (outputTokens v1))]
           \<and> inputTokens v1 = (case prompt_tokens u of
                                 None \<Rightarrow> inputTokens v
                               | Some n \<Rightarrow> if n = 0 then inputTokens v else n)
           \<and> outputTokens v1 = (case completion_tokens u of
                                  None \<Rightarrow> outputTokens v
                                | Some n \<Rightarrow> if n = 0 then outputTokens v else n))
       \<and> (usage d = None \<longrightarrow>
             inputTokens v1 = inputTokens v \<and> outputTokens v1 = outputTokens v
           \<and> filter is_usage evs =
               (if \<exists>c rest. choices d = Some (Some c # rest) \<and> finish_reason c = Some (js ''stop'')
                then [Usage (Some (inputTokens v)) (Some (outputTokens v))] else []))"
proof -
  let ?P = "\<exists>c rest dl t. choices d = Some (Some c # rest) \<and> delta_c c = Some dl
                \<and> content dl = Some t \<and> t \<noteq> []"
  let ?stop = "\<exists>c rest. choices d = Some (Some c # rest) \<and> finish_reason c = Some (js ''stop'')"
  have 0: "fst (streamCompletionGPT parse \<lparr>chunks = pre @ c # post, broken = b\<rparr>)
           = before @ evs
               @ fst (streamCompletionGPT_lines parse v1 (ys @ concat (map lines_of post)))"
    using streamCompletionGPT_at_line
            [where parse = parse and line = line, OF assms(1) assms(2) assms(3) assms(7), of post]
    by (cases "streamCompletionGPT_chunks parse
                 \<lparr>currentContent = [], inputTokens = 0, outputTokens = 0\<rparr> (pre @ c # post)")
       (simp add: streamCompletionGPT_def)
  obtain e1 va th where c: "gpt_choices v d = (e1, va, th)" by (cases "gpt_choices v d")
  obtain e2 vb where u: "gpt_usage va d = (e2, vb)" by (cases "gpt_usage va d")
  have e3: "fst (gpt_finish vb d) =
     (if usage d = None \<and> ?stop
      then [Usage (Some (inputTokens vb)) (Some (outputTokens vb))] else [])"
    by (rule gpt_finish_events)
  have ev: "evs = e1 @ e2 @ fst (gpt_finish vb d)" and v1: "v1 = vb"
    using assms(7)
      streamCompletionGPT_line_value
        [where parse = parse and line = line and v = v, OF assms(4) assms(5) assms(6)] c u
    by auto
  have e1: "(?P \<and> (\<forall>c rest dl t. choices d = Some (Some c # rest) \<and> delta_c c = Some dl
              \<and> content dl = Some t \<and> t \<noteq> [] \<longrightarrow> e1 = [Text t])) \<or> (\<not> ?P \<and> e1 = [])"
    and va: "inputTokens va = inputTokens v \<and> outputTokens va = outputTokens v"
  proof -
    show "(?P \<and> (\<forall>c rest dl t. choices d = Some (Some c # rest) \<and> delta_c c = Some dl
              \<and> content dl = Some t \<and> t \<noteq> [] \<longrightarrow> e1 = [Text t])) \<or> (\<not> ?P \<and> e1 = [])"
    proof (cases ?P)
      case True
      then show ?thesis using c gpt_choices_text [of d _ _ _ _ v] by fastforce
    next
      case False
      then show ?thesis using c gpt_choices_none [OF assms(6), of v] by simp
    qed
    show "inputTokens va = inputTokens v \<and> outputTokens va = outputTokens v"
    proof (cases ?P)
      case True
      then show ?thesis using c gpt_choices_text [of d _ _ _ _ v] by fastforce
    next
      case False
      then show ?thesis using c gpt_choices_none [OF assms(6), of v] by simp
    qed
  qed
  have e1_text: "filter is_text e1 = e1" "filter is_usage e1 = []"
    using e1 by auto
  have e2_none: "usage d = None \<Longrightarrow> e2 = [] \<and> vb = va"
    using u gpt_usage_none [of d va] by simp
  have e2_some: "usage d = Some uo \<Longrightarrow>
      e2 = [Usage (Some (inputTokens vb)) (Some (outputTokens vb))]
    \<and> inputTokens vb = num_or (prompt_tokens uo) (inputTokens va)
    \<and> outputTokens vb = num_or (completion_tokens uo) (outputTokens va)" for uo
    using u gpt_usage_some [of d uo va] by auto
  have e2_text: "filter is_text e2 = []" "\<forall>t. Text t \<notin> set e2"
    using e2_none e2_some by (cases "usage d"; simp)+
  have e3_text: "filter is_text (fst (gpt_finish vb d)) = []"
      "\<forall>t. Text t \<notin> set (fst (gpt_finish vb d))"
    unfolding e3 by simp_all
  have 1: "(\<exists>t. Text t \<in> set evs) \<longleftrightarrow> ?P"
    unfolding ev using e1 e2_text(2) e3_text(2) by auto
  have 2: "\<forall>c rest dl t. choices d = Some (Some c # rest) \<and> delta_c c = Some dl
              \<and> content dl = Some t \<and> t \<noteq> [] \<longrightarrow> filter is_text evs = [Text t]"
    unfolding ev using e1 e1_text(1) e2_text(1) e3_text(1) by auto
  have 3: "\<forall>u. usage d = Some u \<longrightarrow>
             filter is_usage evs = [Usage (Some (inputTokens v1)) (Some (outputTokens v1))]
           \<and> inputTokens v1 = (case prompt_tokens u of
                                 None \<Rightarrow> inputTokens v
                               | Some n \<Rightarrow> if n = 0 then inputTokens v else n)
           \<and> outputTokens v1 = (case completion_tokens u of
                                  None \<Rightarrow> outputTokens v
                                | Some n \<Rightarrow> if n = 0 then outputTokens v else n)"
  proof (intro allI impI)
    fix uo assume s: "usage d = Some uo"
    have "fst (gpt_finish vb d) = []" unfolding e3 using s by simp
    then show "filter is_usage evs = [Usage (Some (inputTokens v1)) (Some (outputTokens v1))]
           \<and> inputTokens v1 = (case prompt_tokens uo of
                                 None \<Rightarrow> inputTokens v
                               | Some n \<Rightarrow> if n = 0 then inputTokens v else n)
           \<and> outputTokens v1 = (case completion_tokens uo of
                                  None \<Rightarrow> outputTokens v
                                | Some n \<Rightarrow> if n = 0 then outputTokens v else n)"
      unfolding ev v1 using e2_some [OF s] e1_text(2) va
      by (simp add: num_or_def)
  qed
  have 4: "usage d = None \<longrightarrow>
             inputTokens v1 = inputTokens v \<and> outputTokens v1 = outputTokens v
           \<and> filter is_usage evs =
               (if ?stop then [Usage (Some (inputTokens v)) (Some (outputTokens v))] else [])"
  proof
    assume n: "usage d = None"
    then show "inputTokens v1 = inputTokens v \<and> outputTokens v1 = outputTokens v
           \<and> filter is_usage evs =
               (if ?stop then [Usage (Some (inputTokens v)) (Some (outputTokens v))] else [])"
      unfolding ev v1 e3 using e2_none [OF n] e1_text(2) va by simp
  qed
  show ?thesis by (rule conjI [OF 0 conjI [OF 1 conjI [OF 2 conjI [OF 3 4]]]])
qed

subsection \<open>The frames of the examples, evaluated\<close>

lemmas frame_defs =
  no_usage_def no_data_def text_message_start_def data_message_start_def text_block_delta_def
  data_block_delta_def text_message_delta_def data_message_delta_def text_gpt_hi_def
  data_gpt_hi_def text_gpt_usage_def data_gpt_usage_def text_gpt_stop_def data_gpt_stop_def
  text_truncated_def

lemma example_parse_values:
  "example_parse text_message_start = JsonValue data_message_start"
  "example_parse text_block_delta = JsonValue data_block_delta"
  "example_parse text_message_delta = JsonValue data_message_delta"
  "example_parse text_gpt_hi = JsonValue data_gpt_hi"
  "example_parse text_gpt_usage = JsonValue data_gpt_usage"
  "example_parse text_gpt_stop = JsonValue data_gpt_stop"
  "example_parse text_truncated = Invalid"
  "example_parse (js ''[DONE]'') = Invalid"
  "example_parse text_gpt_null_choice = JsonValue data_gpt_null_choice"
  "example_parse text_gpt_totals = JsonValue data_gpt_totals"
  by (simp_all add: example_parse_def text_message_start_def text_block_delta_def
      text_message_delta_def text_gpt_hi_def text_gpt_usage_def text_gpt_stop_def
      text_truncated_def text_gpt_null_choice_def text_gpt_totals_def)

lemma example_texts_one_line:
  "10 \<notin> set text_message_start" "10 \<notin> set text_block_delta"
  "10 \<notin> set text_message_delta" "10 \<notin> set text_gpt_hi"
  "10 \<notin> set text_gpt_usage" "10 \<notin> set text_gpt_stop"
  "10 \<notin> set text_truncated" "10 \<notin> set (js ''[DONE]'')"
  "10 \<notin> set text_gpt_null_choice" "10 \<notin> set text_gpt_totals"
  by (simp_all add: text_message_start_def text_block_delta_def
      text_message_delta_def text_gpt_hi_def text_gpt_usage_def text_gpt_stop_def
      text_truncated_def text_gpt_null_choice_def text_gpt_totals_def js_def)

lemma example_not_sentinel:
  "trim (js ''data: '' @ text_gpt_hi) \<noteq> js ''data: [DONE]''"
  "trim (js ''data: '' @ text_truncated) \<noteq> js ''data: [DONE]''"
  "trim (js ''data: '' @ text_gpt_usage) \<noteq> js ''data: [DONE]''"
  "trim (js ''data: '' @ text_gpt_stop) \<noteq> js ''data: [DONE]''"
  "trim (js ''data: '' @ text_gpt_totals) \<noteq> js ''data: [DONE]''"
  "trim (js ''data: '' @ text_gpt_null_choice) \<noteq> js ''data: [DONE]''"
  by (simp_all add: trim_def is_space_def text_gpt_hi_def text_truncated_def text_gpt_usage_def
      text_gpt_stop_def text_gpt_totals_def text_gpt_null_choice_def js_def)

lemma sentinel_line: "trim (js ''data: [DONE]'') = (js ''data: [DONE]'')"
  by (simp add: trim_def is_space_def js_def)

lemma example_gpt_hi_line:
  "streamCompletionGPT_line example_parse v ((js ''data: '') @ text_gpt_hi)
     = ([Text (js ''hi'')], v\<lparr>currentContent := currentContent v @ (js ''hi'')\<rparr>)"
  unfolding streamCompletionGPT_line_data example_parse_values
  by (simp add: streamCompletionGPT_data_def gpt_choices_def gpt_usage_def gpt_finish_def
      truthy_def data_gpt_hi_def no_data_def)

theorem streamCompletion_example_witness:
  "example_parse text_message_start = JsonValue data_message_start
 \<and> example_parse text_block_delta = JsonValue data_block_delta
 \<and> example_parse text_message_delta = JsonValue data_message_delta
 \<and> streamCompletion example_parse
       \<lparr>chunks = [frame_line text_message_start, frame_line text_block_delta,
                  frame_line text_message_delta], broken = None\<rparr>
     = ([Usage (Some 10) (Some 0), Text (js ''hi''), Usage (Some 0) (Some 3)], None)
 \<and> streamCompletion example_parse
       \<lparr>chunks = [frame_line text_message_start @ frame_line text_block_delta
                    @ frame_line text_message_delta], broken = None\<rparr>
     = ([Usage (Some 10) (Some 0), Text (js ''hi''), Usage (Some 0) (Some 3)], None)"
proof -
  have nl: "10 \<notin> set (text_message_start @ text_block_delta @ text_message_delta)"
    using example_texts_one_line by simp
  have d1: "type_j data_message_start = Some (js ''message_start'')"
    "message data_message_start = Some \<lparr>usage_m = Some (no_usage\<lparr>input_tokens := Some 10\<rparr>)\<rparr>"
    "usage_m \<lparr>usage_m = Some (no_usage\<lparr>input_tokens := Some 10\<rparr>)\<rparr>
       = Some (no_usage\<lparr>input_tokens := Some 10\<rparr>)"
    "input_tokens (no_usage\<lparr>input_tokens := Some 10\<rparr>) = Some 10"
    by (simp_all add: data_message_start_def no_data_def)
  have d2: "type_j data_block_delta = Some (js ''content_block_delta'')"
    "delta data_block_delta = Some \<lparr>type_c = Some (js ''text_delta''), text_c = Some (js ''hi'')\<rparr>"
    "type_c \<lparr>type_c = Some (js ''text_delta''), text_c = Some (js ''hi'')\<rparr> = Some (js ''text_delta'')"
    "text_c \<lparr>type_c = Some (js ''text_delta''), text_c = Some (js ''hi'')\<rparr> = Some (js ''hi'')"
    by (simp_all add: data_block_delta_def no_data_def)
  have d3: "type_j data_message_delta = Some (js ''message_delta'')"
    "usage data_message_delta = Some (no_usage\<lparr>output_tokens := Some 3\<rparr>)"
    "output_tokens (no_usage\<lparr>output_tokens := Some 3\<rparr>) = Some 3"
    by (simp_all add: data_message_delta_def no_data_def)
  from streamCompletion_example
         [where parse = example_parse,
          OF example_parse_values(1) d1 example_parse_values(2) d2 example_parse_values(3) d3 nl]
    example_parse_values(1-3)
  show ?thesis by simp
qed


text \<open>
  C7 as stated fails for the OpenAI-format parser: the sentinel line starts with
  \<^verbatim>\<open>data: \<close>, its remainder \<^verbatim>\<open>[DONE]\<close> is not JSON, and it yields a usage event and ends
  the stream, so the frame after it yields nothing. So does the sentinel followed by white
  space of any kind, here a no-break space and a byte order mark.
\<close>

theorem sentinel_is_not_skipped:
  "startsWith (js ''data: [DONE]'') (js ''data: '')
 \<and> example_parse (slice (js ''data: [DONE]'') 6) = Invalid
 \<and> streamCompletionGPT_lines example_parse
       \<lparr>currentContent = [], inputTokens = 0, outputTokens = 0\<rparr>
       [(js ''data: '') @ text_gpt_hi, (js ''data: [DONE]''), (js ''data: '') @ text_gpt_hi]
     = ([Text (js ''hi''), Usage (Some 0) (Some 0)],
        \<lparr>currentContent = (js ''hi''), inputTokens = 0, outputTokens = 0\<rparr>, True)
 \<and> streamCompletionGPT_lines example_parse
       \<lparr>currentContent = [], inputTokens = 0, outputTokens = 0\<rparr>
       [(js ''data: '') @ text_gpt_hi, (js ''data: '') @ text_gpt_hi]
     = ([Text (js ''hi''), Text (js ''hi'')],
        \<lparr>currentContent = (js ''hihi''), inputTokens = 0, outputTokens = 0\<rparr>, False)
 \<and> streamCompletionGPT example_parse
       \<lparr>chunks = [frame_line text_gpt_hi @ frame_line (js ''[DONE]'') @ frame_line text_gpt_hi],
        broken = None\<rparr>
     = ([Text (js ''hi''), Usage (Some 0) (Some 0)], None)
 \<and> streamCompletionGPT example_parse
       \<lparr>chunks = [frame_line text_gpt_hi @ frame_line text_gpt_hi], broken = None\<rparr>
     = ([Text (js ''hi''), Text (js ''hi'')], None)
 \<and> startsWith (js ''data: [DONE]'' @ [160, 65279]) (js ''data: '')
 \<and> example_parse (slice (js ''data: [DONE]'' @ [160, 65279]) 6) = Invalid
 \<and> streamCompletionGPT_lines example_parse
       \<lparr>currentContent = [], inputTokens = 0, outputTokens = 0\<rparr>
       [js ''data: [DONE]'' @ [160, 65279], js ''data: '' @ text_gpt_hi]
     = ([Usage (Some 0) (Some 0)],
        \<lparr>currentContent = [], inputTokens = 0, outputTokens = 0\<rparr>, True)"
proof -
  have a: "startsWith (js ''data: [DONE]'') (js ''data: '')"
    by (simp add: startsWith_def js_def)
  have b: "example_parse (slice (js ''data: [DONE]'') 6) = Invalid"
    using example_parse_values(8) by (simp add: slice_def sentinel_text [symmetric])
  have l1: "lines_of (frame_line text_gpt_hi @ frame_line (js ''[DONE]'') @ frame_line text_gpt_hi)
              = [(js ''data: '') @ text_gpt_hi, (js ''data: [DONE]''), (js ''data: '') @ text_gpt_hi]"
    using lines_of_frame_line [OF example_texts_one_line(4)]
      lines_of_frame_line [OF example_texts_one_line(8)]
      lines_of_frame_line [OF example_texts_one_line(4), of "[]"]
    by (simp add: lines_of_Nil sentinel_text del: append.simps)
  have l2: "lines_of (frame_line text_gpt_hi @ frame_line text_gpt_hi)
              = [(js ''data: '') @ text_gpt_hi, (js ''data: '') @ text_gpt_hi]"
    using lines_of_frame_line [OF example_texts_one_line(4)]
      lines_of_frame_line [OF example_texts_one_line(4), of "[]"]
    by (simp add: lines_of_Nil del: append.simps)
  have c: "streamCompletionGPT_lines example_parse
       \<lparr>currentContent = [], inputTokens = 0, outputTokens = 0\<rparr>
       [(js ''data: '') @ text_gpt_hi, (js ''data: [DONE]''), (js ''data: '') @ text_gpt_hi]
     = ([Text (js ''hi''), Usage (Some 0) (Some 0)],
        \<lparr>currentContent = (js ''hi''), inputTokens = 0, outputTokens = 0\<rparr>, True)"
    using example_not_sentinel(1) sentinel_line
    by (simp add: example_gpt_hi_line usage_event_def del: append.simps)
  have d: "streamCompletionGPT_lines example_parse
       \<lparr>currentContent = [], inputTokens = 0, outputTokens = 0\<rparr>
       [(js ''data: '') @ text_gpt_hi, (js ''data: '') @ text_gpt_hi]
     = ([Text (js ''hi''), Text (js ''hi'')],
        \<lparr>currentContent = (js ''hihi''), inputTokens = 0, outputTokens = 0\<rparr>, False)"
    using example_not_sentinel(1)
    by (simp add: example_gpt_hi_line del: append.simps) (simp add: js_def)
  have e: "streamCompletionGPT example_parse
       \<lparr>chunks = [frame_line text_gpt_hi @ frame_line (js ''[DONE]'') @ frame_line text_gpt_hi],
        broken = None\<rparr>
     = ([Text (js ''hi''), Usage (Some 0) (Some 0)], None)"
    unfolding streamCompletionGPT_def
    by (simp add: l1 c del: append.simps streamCompletionGPT_lines.simps)
  have f: "streamCompletionGPT example_parse
       \<lparr>chunks = [frame_line text_gpt_hi @ frame_line text_gpt_hi], broken = None\<rparr>
     = ([Text (js ''hi''), Text (js ''hi'')], None)"
    unfolding streamCompletionGPT_def
    by (simp add: l2 d del: append.simps streamCompletionGPT_lines.simps)
  have g: "startsWith (js ''data: [DONE]'' @ [160, 65279]) (js ''data: '')"
    by (simp add: startsWith_def js_def)
  have h: "example_parse (slice (js ''data: [DONE]'' @ [160, 65279]) 6) = Invalid"
    by (simp add: slice_def example_parse_def frame_defs text_gpt_null_choice_def
        text_gpt_totals_def js_def)
  have t: "trim (js ''data: [DONE]'' @ [160, 65279]) = js ''data: [DONE]''"
    by (simp add: trim_def is_space_def js_def)
  have i: "streamCompletionGPT_lines example_parse
       \<lparr>currentContent = [], inputTokens = 0, outputTokens = 0\<rparr>
       [js ''data: [DONE]'' @ [160, 65279], js ''data: '' @ text_gpt_hi]
     = ([Usage (Some 0) (Some 0)],
        \<lparr>currentContent = [], inputTokens = 0, outputTokens = 0\<rparr>, True)"
    by (simp add: t usage_event_def)
  from a b c d e f g h i show ?thesis by blast
qed

lemma example_anthropic_lines:
  "streamCompletion_line example_parse u (js ''data: '' @ text_message_start)
     = ([Usage (Some 10) (output_tokens_v u)], u\<lparr>input_tokens_v := Some 10\<rparr>)"
  "streamCompletion_line example_parse u (js ''data: '' @ text_block_delta)
     = ([Text (js ''hi'')], u)"
  "streamCompletion_line example_parse u (js ''data: '' @ text_message_delta)
     = ([Usage (Some 0) (Some 3)], u\<lparr>output_tokens_v := Some 3\<rparr>)"
  unfolding streamCompletion_line_data example_parse_values
  by (simp_all add: streamCompletion_data_def or_else_def data_message_start_def
      data_block_delta_def data_message_delta_def no_data_def no_usage_def)

lemma example_gpt_totals_line:
  "streamCompletionGPT_line example_parse v (js ''data: '' @ text_gpt_totals)
     = ([Usage (Some 5) (Some 7)], v\<lparr>inputTokens := 5, outputTokens := 7\<rparr>)"
  unfolding streamCompletionGPT_line_data example_parse_values
  by (simp add: streamCompletionGPT_data_def gpt_choices_def gpt_usage_def gpt_finish_def
      usage_event_def num_or_def data_gpt_totals_def no_data_def no_usage_def)

theorem malformed_frame_skipped_witness:
  "startsWith (js ''data: '' @ text_truncated) (js ''data: '')
 \<and> example_parse (slice (js ''data: '' @ text_truncated) 6) = Invalid
 \<and> trim (js ''data: '' @ text_truncated) \<noteq> js ''data: [DONE]''
 \<and> lines_of (frame_line text_block_delta @ frame_line text_truncated
               @ frame_line text_message_delta)
     = [js ''data: '' @ text_block_delta] @ (js ''data: '' @ text_truncated)
         # [js ''data: '' @ text_message_delta]
 \<and> streamCompletion example_parse
       \<lparr>chunks = [frame_line text_message_start]
          @ (frame_line text_block_delta @ frame_line text_truncated
               @ frame_line text_message_delta) # [],
        broken = None\<rparr>
     = ([Usage (Some 10) (Some 0), Text (js ''hi''), Usage (Some 0) (Some 3)], None)
 \<and> streamCompletionGPT example_parse
       \<lparr>chunks = []
          @ (frame_line text_gpt_hi @ frame_line text_truncated @ frame_line text_gpt_totals) # [],
        broken = None\<rparr>
     = ([Text (js ''hi''), Usage (Some 5) (Some 7)], None)"
proof -
  let ?bad = "js ''data: '' @ text_truncated"
  have a: "startsWith ?bad (js ''data: '')"
    by (simp add: startsWith_def js_def)
  have b: "example_parse (slice ?bad 6) = Invalid"
    using example_parse_values(7) by (simp add: slice_def)
  have l1: "lines_of (frame_line text_block_delta @ frame_line text_truncated
               @ frame_line text_message_delta)
     = [js ''data: '' @ text_block_delta] @ ?bad # [js ''data: '' @ text_message_delta]"
    using lines_of_frame_line [OF example_texts_one_line(2)]
      lines_of_frame_line [OF example_texts_one_line(7)]
      lines_of_frame_line [OF example_texts_one_line(3), of "[]"]
    by (simp add: lines_of_Nil del: append.simps)
  have l2: "lines_of (frame_line text_block_delta @ frame_line text_message_delta)
     = [js ''data: '' @ text_block_delta] @ [js ''data: '' @ text_message_delta]"
    using lines_of_frame_line [OF example_texts_one_line(2)]
      lines_of_frame_line [OF example_texts_one_line(3), of "[]"]
    by (simp add: lines_of_Nil del: append.simps)
  have l0: "lines_of (frame_line text_message_start) = [js ''data: '' @ text_message_start]"
    using lines_of_frame_line [OF example_texts_one_line(1), of "[]"] by (simp add: lines_of_Nil)
  have g1: "lines_of (frame_line text_gpt_hi @ frame_line text_truncated @ frame_line text_gpt_totals)
     = [js ''data: '' @ text_gpt_hi] @ ?bad # [js ''data: '' @ text_gpt_totals]"
    using lines_of_frame_line [OF example_texts_one_line(4)]
      lines_of_frame_line [OF example_texts_one_line(7)]
      lines_of_frame_line [OF example_texts_one_line(10), of "[]"]
    by (simp add: lines_of_Nil del: append.simps)
  have g2: "lines_of (frame_line text_gpt_hi @ frame_line text_gpt_totals)
     = [js ''data: '' @ text_gpt_hi] @ [js ''data: '' @ text_gpt_totals]"
    using lines_of_frame_line [OF example_texts_one_line(4)]
      lines_of_frame_line [OF example_texts_one_line(10), of "[]"]
    by (simp add: lines_of_Nil del: append.simps)
  have clean: "streamCompletion example_parse
       \<lparr>chunks = [frame_line text_message_start]
          @ (frame_line text_block_delta @ frame_line text_message_delta) # [],
        broken = None\<rparr>
     = ([Usage (Some 10) (Some 0), Text (js ''hi''), Usage (Some 0) (Some 3)], None)"
    unfolding streamCompletion_def
    by (simp add: l0 l2 example_anthropic_lines)
  have clean_gpt: "streamCompletionGPT example_parse
       \<lparr>chunks = [] @ (frame_line text_gpt_hi @ frame_line text_gpt_totals) # [],
        broken = None\<rparr>
     = ([Text (js ''hi''), Usage (Some 5) (Some 7)], None)"
    unfolding streamCompletionGPT_def
    using example_not_sentinel(1) example_not_sentinel(5)
    by (simp add: g2 example_gpt_hi_line example_gpt_totals_line)
  note w = malformed_frame_skipped
      [where parse = example_parse and bad = ?bad
         and pre = "[frame_line text_message_start]" and post = "[]" and b = None,
       OF a b l1 l2]
  note wg = malformed_frame_skipped
      [where parse = example_parse and bad = ?bad and pre = "[]" and post = "[]" and b = None,
       OF a b g1 g2]
  from w [THEN conjunct2, THEN conjunct2, THEN conjunct1] clean
  have 1: "streamCompletion example_parse
       \<lparr>chunks = [frame_line text_message_start]
          @ (frame_line text_block_delta @ frame_line text_truncated
               @ frame_line text_message_delta) # [],
        broken = None\<rparr>
     = ([Usage (Some 10) (Some 0), Text (js ''hi''), Usage (Some 0) (Some 3)], None)"
    by (rule trans)
  from wg [THEN conjunct2, THEN conjunct2, THEN conjunct2, rule_format,
           OF example_not_sentinel(2), THEN conjunct2, THEN conjunct2] clean_gpt
  have 2: "streamCompletionGPT example_parse
       \<lparr>chunks = []
          @ (frame_line text_gpt_hi @ frame_line text_truncated @ frame_line text_gpt_totals) # [],
        broken = None\<rparr>
     = ([Text (js ''hi''), Usage (Some 5) (Some 7)], None)"
    by (rule trans)
  from a b example_not_sentinel(2) l1 1 2 show ?thesis by blast
qed

lemma example_data_line:
  "startsWith (js ''data: '' @ body) (js ''data: '')"
  "slice (js ''data: '' @ body) 6 = body"
  by (simp_all add: startsWith_def slice_def)

text \<open>
  C8 as stated fails: a frame that carries a usage object and whose first choice is
  \<^verbatim>\<open>null\<close> yields no usage event, since reading the choice's delta throws before the usage
  statement and the exception is caught and logged.
\<close>

theorem null_choice_drops_usage:
  "startsWith (js ''data: '' @ text_gpt_null_choice) (js ''data: '')
 \<and> example_parse (slice (js ''data: '' @ text_gpt_null_choice) 6) = JsonValue data_gpt_null_choice
 \<and> usage data_gpt_null_choice
     = Some (no_usage\<lparr>prompt_tokens := Some 12, completion_tokens := Some 4\<rparr>)
 \<and> choices data_gpt_null_choice = Some [None]
 \<and> streamCompletionGPT example_parse
       \<lparr>chunks = [frame_line text_gpt_null_choice], broken = None\<rparr> = ([], None)"
proof -
  have l: "lines_of (frame_line text_gpt_null_choice) = [js ''data: '' @ text_gpt_null_choice]"
    using lines_of_frame_line [OF example_texts_one_line(9), of "[]"] by (simp add: lines_of_Nil)
  have d: "usage data_gpt_null_choice
             = Some (no_usage\<lparr>prompt_tokens := Some 12, completion_tokens := Some 4\<rparr>)"
      "choices data_gpt_null_choice = Some [None]"
    by (simp_all add: data_gpt_null_choice_def no_data_def)
  have f: "streamCompletionGPT_line example_parse v (js ''data: '' @ text_gpt_null_choice) = ([], v)"
    for v
    unfolding streamCompletionGPT_line_data example_parse_values
    by (simp add: streamCompletionGPT_data_def gpt_choices_def d)
  have r: "streamCompletionGPT example_parse
       \<lparr>chunks = [frame_line text_gpt_null_choice], broken = None\<rparr> = ([], None)"
    unfolding streamCompletionGPT_def using example_not_sentinel(6)
    by (simp add: l f del: append.simps)
  from example_data_line [of text_gpt_null_choice] example_parse_values(9) d r
  show ?thesis by simp
qed

theorem streamCompletionGPT_frame_witness:
  "fst (streamCompletionGPT example_parse
       \<lparr>chunks = [frame_line text_gpt_totals]
          @ (frame_line text_gpt_usage @ frame_line text_gpt_stop) # [],
        broken = None\<rparr>)
     = [Usage (Some 5) (Some 7), Usage (Some 12) (Some 7), Usage (Some 12) (Some 7)]
 \<and> usage data_gpt_usage
     = Some (no_usage\<lparr>prompt_tokens := Some 12, completion_tokens := Some 0\<rparr>)
 \<and> filter is_usage (fst (streamCompletionGPT_line example_parse
         \<lparr>currentContent = [], inputTokens = 5, outputTokens = 7\<rparr>
         (js ''data: '' @ text_gpt_usage)))
     = [Usage (Some 12) (Some 7)]
 \<and> usage data_gpt_stop = None
 \<and> filter is_usage (fst (streamCompletionGPT_line example_parse
         \<lparr>currentContent = [], inputTokens = 5, outputTokens = 7\<rparr>
         (js ''data: '' @ text_gpt_stop)))
     = [Usage (Some 5) (Some 7)]
 \<and> filter is_text (fst (streamCompletionGPT_line example_parse
         \<lparr>currentContent = [], inputTokens = 5, outputTokens = 7\<rparr>
         (js ''data: '' @ text_gpt_hi)))
     = [Text (js ''hi'')]
 \<and> filter is_usage (fst (streamCompletionGPT_line example_parse
         \<lparr>currentContent = [], inputTokens = 5, outputTokens = 7\<rparr>
         (js ''data: '' @ text_gpt_hi)))
     = []"
proof -
  let ?init = "\<lparr>currentContent = [], inputTokens = 0, outputTokens = 0\<rparr>"
  let ?seen = "\<lparr>currentContent = [], inputTokens = 5, outputTokens = 7\<rparr>"
  let ?next = "\<lparr>currentContent = [], inputTokens = 12, outputTokens = 7\<rparr>"
  let ?c = "\<lambda>body. frame_line text_gpt_usage @ frame_line body"
  have p: "example_parse (slice (js ''data: '' @ text_gpt_usage) 6) = JsonValue data_gpt_usage"
    "example_parse (slice (js ''data: '' @ text_gpt_stop) 6) = JsonValue data_gpt_stop"
    "example_parse (slice (js ''data: '' @ text_gpt_hi) 6) = JsonValue data_gpt_hi"
    using example_parse_values(4-6) by (simp_all add: example_data_line)
  have u: "usage data_gpt_usage
             = Some (no_usage\<lparr>prompt_tokens := Some 12, completion_tokens := Some 0\<rparr>)"
    "usage data_gpt_stop = None" "usage data_gpt_hi = None"
    by (simp_all add: data_gpt_usage_def data_gpt_stop_def data_gpt_hi_def no_data_def)
  have nn: "\<forall>rest. choices data_gpt_usage \<noteq> Some (None # rest)"
    "\<forall>rest. choices data_gpt_stop \<noteq> Some (None # rest)"
    "\<forall>rest. choices data_gpt_hi \<noteq> Some (None # rest)"
    by (simp_all add: data_gpt_usage_def data_gpt_stop_def data_gpt_hi_def no_data_def)
  have st: "\<exists>c rest. choices data_gpt_stop = Some (Some c # rest)
              \<and> finish_reason c = Some (js ''stop'')"
    by (simp add: data_gpt_stop_def no_data_def)
  have nst: "\<not> (\<exists>c rest. choices data_gpt_hi = Some (Some c # rest)
              \<and> finish_reason c = Some (js ''stop''))"
    by (simp add: data_gpt_hi_def no_data_def)
  have hi: "choices data_gpt_hi
              = Some (Some \<lparr>delta_c = Some \<lparr>content = Some (js ''hi'')\<rparr>, finish_reason = None\<rparr> # [])
          \<and> delta_c \<lparr>delta_c = Some \<lparr>content = Some (js ''hi'')\<rparr>, finish_reason = None\<rparr>
              = Some \<lparr>content = Some (js ''hi'')\<rparr>
          \<and> content \<lparr>content = Some (js ''hi'')\<rparr> = Some (js ''hi'') \<and> js ''hi'' \<noteq> []"
    by (simp add: data_gpt_hi_def no_data_def)
  have f0: "streamCompletionGPT_line example_parse ?init (js ''data: '' @ text_gpt_totals)
              = ([Usage (Some 5) (Some 7)], ?seen)"
    unfolding streamCompletionGPT_line_data example_parse_values
    by (simp add: streamCompletionGPT_data_def gpt_choices_def gpt_usage_def gpt_finish_def
        usage_event_def num_or_def data_gpt_totals_def no_data_def no_usage_def)
  have lt: "lines_of (frame_line text_gpt_totals) = [js ''data: '' @ text_gpt_totals]"
    using lines_of_frame_line [OF example_texts_one_line(10), of "[]"] by (simp add: lines_of_Nil)
  have reach: "streamCompletionGPT_lines example_parse ?init
                 (concat (map lines_of [frame_line text_gpt_totals]) @ [])
               = ([Usage (Some 5) (Some 7)], ?seen, False)"
    using example_not_sentinel(5) by (simp add: lt f0 del: append.simps)
  have lc: "lines_of (frame_line text_gpt_usage @ frame_line body)
              = [] @ (js ''data: '' @ text_gpt_usage) # lines_of (frame_line body)" for body
    using lines_of_frame_line [OF example_texts_one_line(5), of "frame_line body"] by simp
  have ls: "lines_of (frame_line text_gpt_stop) = [js ''data: '' @ text_gpt_stop]"
    using lines_of_frame_line [OF example_texts_one_line(6), of "[]"] by (simp add: lines_of_Nil)
  note f1 = streamCompletionGPT_frame
      [where parse = example_parse and pre = "[frame_line text_gpt_totals]" and xs = "[]"
         and c = "frame_line text_gpt_usage @ frame_line text_gpt_stop"
         and line = "js ''data: '' @ text_gpt_usage" and post = "[]" and b = None,
       OF reach lc example_not_sentinel(3) example_data_line(1) p(1) nn(1) surjective_pairing]
  from f1 [THEN conjunct2, THEN conjunct2, THEN conjunct2, THEN conjunct1, rule_format, OF u(1)]
  have 1: "filter is_usage (fst (streamCompletionGPT_line example_parse ?seen
             (js ''data: '' @ text_gpt_usage))) = [Usage (Some 12) (Some 7)]
         \<and> inputTokens (snd (streamCompletionGPT_line example_parse ?seen
             (js ''data: '' @ text_gpt_usage))) = 12
         \<and> outputTokens (snd (streamCompletionGPT_line example_parse ?seen
             (js ''data: '' @ text_gpt_usage))) = 7"
    by (simp add: no_usage_def)
  have whole: "fst (streamCompletionGPT_line example_parse ?seen (js ''data: '' @ text_gpt_usage))
                 = [Usage (Some 12) (Some 7)]
             \<and> currentContent (snd (streamCompletionGPT_line example_parse ?seen
                 (js ''data: '' @ text_gpt_usage))) = []"
    unfolding streamCompletionGPT_line_data example_parse_values
    by (simp add: streamCompletionGPT_data_def gpt_choices_def gpt_usage_def gpt_finish_def
        usage_event_def num_or_def data_gpt_usage_def no_data_def no_usage_def)
  have v1: "snd (streamCompletionGPT_line example_parse ?seen (js ''data: '' @ text_gpt_usage)) = ?next"
    using 1 whole by simp
  have fs: "streamCompletionGPT_line example_parse ?next (js ''data: '' @ text_gpt_stop)
              = ([Usage (Some 12) (Some 7)], ?next)"
    unfolding streamCompletionGPT_line_data example_parse_values
    by (simp add: streamCompletionGPT_data_def gpt_choices_def gpt_usage_def gpt_finish_def
        usage_event_def truthy_def data_gpt_stop_def no_data_def)
  have rest: "fst (streamCompletionGPT_lines example_parse ?next
                (lines_of (frame_line text_gpt_stop) @ concat (map lines_of [])))
              = [Usage (Some 12) (Some 7)]"
    using example_not_sentinel(4) by (simp add: ls fs del: append.simps)
  from f1 [THEN conjunct1] whole v1 rest
  have 0: "fst (streamCompletionGPT example_parse
       \<lparr>chunks = [frame_line text_gpt_totals]
          @ (frame_line text_gpt_usage @ frame_line text_gpt_stop) # [],
        broken = None\<rparr>)
     = [Usage (Some 5) (Some 7), Usage (Some 12) (Some 7), Usage (Some 12) (Some 7)]"
    by simp
  note f2 = streamCompletionGPT_frame
      [where parse = example_parse and pre = "[frame_line text_gpt_totals]" and xs = "[]"
         and c = "frame_line text_gpt_stop" and ys = "[]"
         and line = "js ''data: '' @ text_gpt_stop" and post = "[]" and b = None,
       OF reach _ example_not_sentinel(4) example_data_line(1) p(2) nn(2) surjective_pairing]
  from f2 [THEN conjunct2, THEN conjunct2, THEN conjunct2, THEN conjunct2, rule_format, OF _ u(2)]
    ls st
  have 2: "filter is_usage (fst (streamCompletionGPT_line example_parse ?seen
             (js ''data: '' @ text_gpt_stop))) = [Usage (Some 5) (Some 7)]"
    by simp
  have lh: "lines_of (frame_line text_gpt_hi) = [js ''data: '' @ text_gpt_hi]"
    using lines_of_frame_line [OF example_texts_one_line(4), of "[]"] by (simp add: lines_of_Nil)
  note f3 = streamCompletionGPT_frame
      [where parse = example_parse and pre = "[frame_line text_gpt_totals]" and xs = "[]"
         and c = "frame_line text_gpt_hi" and ys = "[]"
         and line = "js ''data: '' @ text_gpt_hi" and post = "[]" and b = None,
       OF reach _ example_not_sentinel(1) example_data_line(1) p(3) nn(3) surjective_pairing]
  from f3 [THEN conjunct2, THEN conjunct2, THEN conjunct1, rule_format, OF _ hi] lh
  have 3: "filter is_text (fst (streamCompletionGPT_line example_parse ?seen
             (js ''data: '' @ text_gpt_hi))) = [Text (js ''hi'')]"
    by simp
  from f3 [THEN conjunct2, THEN conjunct2, THEN conjunct2, THEN conjunct2, rule_format, OF _ u(3)]
    lh nst
  have 4: "filter is_usage (fst (streamCompletionGPT_line example_parse ?seen
             (js ''data: '' @ text_gpt_hi))) = []"
    by simp
  from 0 u(1) 1 u(2) 2 3 4 show ?thesis by blast
qed

end
